theory Spec2Isabelle
  imports
    Main
    "HOL-Library.Word"
    "HOL-Library.AList"
    "HOL-Library.Char_ord"
    "HOL-Library.List_Lexorder"
    "HOL-Library.Multiset"
begin

unbundle bit_operations_syntax

section \<open>Machine integers\<close>

text \<open>
  Go's \<open>int\<close> and \<open>uint\<close> have 64 bits on the platforms the program is built for; they
  and \<open>int64\<close> are words of that width, the signed ones read by \<^const>\<open>sint\<close>.
\<close>

type_synonym go_uint = "64 word"
type_synonym go_int = "64 word"
type_synonym int64 = "64 word"

section \<open>Strings and formatting\<close>

text \<open>
  A Go string is a sequence of bytes; it is modelled as a \<^typ>\<open>string\<close>, whose
  characters are bytes. Comparison of strings is bytewise lexicographic, which is the
  order of \<^theory_text>\<open>List_Lexorder\<close> over \<^theory_text>\<open>Char_ord\<close>.
\<close>

definition digit :: "nat \<Rightarrow> char" where
  "digit n = ''0123456789'' ! n"

text \<open>The decimal digits of a natural number, as \<open>fmt\<close> prints an unsigned integer with \<open>%v\<close>.\<close>

function decimal :: "nat \<Rightarrow> string" where
  "decimal n = (if n < 10 then [digit n] else decimal (n div 10) @ [digit (n mod 10)])"
  by pat_completeness auto
termination
  by (relation "measure id") auto

declare decimal.simps [simp del]

text \<open>\<open>fmt.Sprintf("%v", x)\<close> for a signed integer, an unsigned integer and a boolean.\<close>

definition fmt_int :: "int \<Rightarrow> string" where
  "fmt_int i = (if i < 0 then CHR ''-'' # decimal (nat (- i)) else decimal (nat i))"

definition fmt_uint :: "go_uint \<Rightarrow> string" where
  "fmt_uint w = decimal (unat w)"


text \<open>\<open>strings.Join\<close>.\<close>

fun strings_Join :: "string list \<Rightarrow> string \<Rightarrow> string" where
  "strings_Join [] sep = []"
| "strings_Join [x] sep = x"
| "strings_Join (x # y # ys) sep = x @ sep @ strings_Join (y # ys) sep"

text \<open>The number that a string of decimal digits denotes.\<close>

definition digits_value :: "string \<Rightarrow> nat" where
  "digits_value s = foldl (\<lambda>a c. 10 * a + (of_char c - of_char (CHR ''0''))) 0 s"

section \<open>Percent-encoding of the standard library (\<open>net/url\<close>)\<close>

datatype encoding =
    encodePath
  | encodePathSegment
  | encodeHost
  | encodeZone
  | encodeUserPassword
  | encodeQueryComponent
  | encodeFragment

definition between :: "char \<Rightarrow> char \<Rightarrow> char \<Rightarrow> bool" where
  "between lo hi b \<longleftrightarrow> lo \<le> b \<and> b \<le> hi"

definition is_alnum :: "char \<Rightarrow> bool" where
  "is_alnum b \<longleftrightarrow>
     between (CHR ''a'') (CHR ''z'') b \<or> between (CHR ''A'') (CHR ''Z'') b \<or>
     between (CHR ''0'') (CHR ''9'') b"

text \<open>
  \<open>shouldEscape\<close>: the source's order of tests is kept. Letters and digits are never
  escaped, the host modes allow the sub-delimiters, the four marks are unreserved, the
  reserved characters depend on the part of the URL, everything else is escaped.
\<close>

definition shouldEscape :: "char \<Rightarrow> encoding \<Rightarrow> bool" where
  "shouldEscape c mode =
     (if is_alnum c then False
      else if (mode = encodeHost \<or> mode = encodeZone) \<and> c \<in> set ''!$&'()*+,;=:[]<>\"'' then False
      else if c \<in> set ''-_.~'' then False
      else if c \<in> set ''$&+,/:;=?@'' \<and> mode = encodePath then c = CHR ''?''
      else if c \<in> set ''$&+,/:;=?@'' \<and> mode = encodePathSegment then c \<in> set ''/;,?''
      else if c \<in> set ''$&+,/:;=?@'' \<and> mode = encodeUserPassword then c \<in> set ''@/?:''
      else if c \<in> set ''$&+,/:;=?@'' \<and> mode = encodeQueryComponent then True
      else if c \<in> set ''$&+,/:;=?@'' \<and> mode = encodeFragment then False
      else if mode = encodeFragment \<and> c \<in> set ''!()*'' then False
      else True)"

definition upperhex :: string where
  "upperhex = ''0123456789ABCDEF''"

definition escape_byte :: "encoding \<Rightarrow> char \<Rightarrow> string" where
  "escape_byte mode c =
     (if shouldEscape c mode then
        (if c = CHR '' '' \<and> mode = encodeQueryComponent then ''+''
         else [CHR ''%'', upperhex ! (of_char c div 16), upperhex ! (of_char c mod 16)])
      else [c])"

definition escape :: "string \<Rightarrow> encoding \<Rightarrow> string" where
  "escape s mode = concat (map (escape_byte mode) s)"

definition QueryEscape :: "string \<Rightarrow> string" where
  "QueryEscape s = escape s encodeQueryComponent"

section \<open>Query parameters (\<open>url.Values\<close>)\<close>

text \<open>
  \<open>url.Values\<close> is a Go map from a key to the list of its values. It is modelled as an
  association list whose keys are kept distinct by \<open>Set\<close> and \<open>Add\<close>; the position of a
  key in the list carries no meaning, since \<open>Encode\<close> sorts the keys.
\<close>

type_synonym Values = "(string \<times> string list) list"

definition values_of :: "Values \<Rightarrow> string \<Rightarrow> string list" where
  "values_of v key = (case map_of v key of None \<Rightarrow> [] | Some vs \<Rightarrow> vs)"

definition Values_Get :: "Values \<Rightarrow> string \<Rightarrow> string" where
  "Values_Get v key = (case values_of v key of [] \<Rightarrow> '''' | x # _ \<Rightarrow> x)"

definition Values_Set :: "string \<Rightarrow> string \<Rightarrow> Values \<Rightarrow> Values" where
  "Values_Set key val v = AList.update key [val] v"

definition Values_Add :: "string \<Rightarrow> string \<Rightarrow> Values \<Rightarrow> Values" where
  "Values_Add key val v = AList.update key (values_of v key @ [val]) v"

text \<open>
  \<open>Encode\<close> walks the sorted keys and, for each, its values in order; an ampersand is
  written before every pair but the first one of the buffer.
\<close>

definition encode_pair :: "string \<Rightarrow> string \<Rightarrow> string \<Rightarrow> string" where
  "encode_pair keyEscaped val buf =
     (if buf \<noteq> [] then buf @ ''&'' else buf) @ keyEscaped @ ''='' @ QueryEscape val"

definition Values_Encode :: "Values \<Rightarrow> string" where
  "Values_Encode v =
     fold (\<lambda>k buf. fold (encode_pair (QueryEscape k)) (values_of v k) buf)
       (sort (map fst v)) []"

section \<open>Errors\<close>

datatype error =
    ErrorString string
  | EscapeError string
  | InvalidHostError string
  | URLError string string error
  | UnmarshalTypeError string string
  | SyntaxError string

section \<open>String helpers of the standard library (\<open>strings\<close>)\<close>

definition HasPrefix :: "string \<Rightarrow> string \<Rightarrow> bool" where
  "HasPrefix s p \<longleftrightarrow> take (length p) s = p"

definition HasSuffix :: "string \<Rightarrow> string \<Rightarrow> bool" where
  "HasSuffix s p \<longleftrightarrow> length p \<le> length s \<and> drop (length s - length p) s = p"

text \<open>\<open>strings.Index\<close>: the position of the first occurrence, \<open>None\<close> for Go's \<open>-1\<close>.\<close>

fun Index :: "string \<Rightarrow> string \<Rightarrow> nat option" where
  "Index [] sub = (if sub = [] then Some 0 else None)"
| "Index (c # cs) sub =
     (if HasPrefix (c # cs) sub then Some 0 else map_option Suc (Index cs sub))"

text \<open>\<open>strings.LastIndex\<close> for a separator of one byte.\<close>

fun LastIndexByte :: "string \<Rightarrow> char \<Rightarrow> nat option" where
  "LastIndexByte [] b = None"
| "LastIndexByte (c # cs) b =
     (case LastIndexByte cs b of
        Some i \<Rightarrow> Some (Suc i)
      | None \<Rightarrow> if c = b then Some 0 else None)"

text \<open>\<open>strings.Cut\<close>: the text before and after the first occurrence of the separator.\<close>

definition Cut :: "string \<Rightarrow> string \<Rightarrow> string \<times> string \<times> bool" where
  "Cut s sep =
     (case Index s sep of
        Some i \<Rightarrow> (take i s, drop (i + length sep) s, True)
      | None \<Rightarrow> (s, '''', False))"

definition Contains :: "string \<Rightarrow> string \<Rightarrow> bool" where
  "Contains s sub \<longleftrightarrow> Index s sub \<noteq> None"

definition ToLower_byte :: "char \<Rightarrow> char" where
  "ToLower_byte b = (if between (CHR ''A'') (CHR ''Z'') b then char_of (of_char b + (32::nat)) else b)"

section \<open>URL parsing (\<open>net/url\<close>)\<close>

record URL =
  Scheme :: string
  Opaque :: string
  User :: "(string \<times> string option) option"
  Host :: string
  Path :: string
  RawPath :: string
  OmitHost :: bool
  ForceQuery :: bool
  RawQuery :: string
  Fragment :: string
  RawFragment :: string


definition ishex :: "char \<Rightarrow> bool" where
  "ishex b \<longleftrightarrow>
     between (CHR ''0'') (CHR ''9'') b \<or> between (CHR ''a'') (CHR ''f'') b \<or>
     between (CHR ''A'') (CHR ''F'') b"

definition unhex :: "char \<Rightarrow> nat" where
  "unhex b =
     (if between (CHR ''0'') (CHR ''9'') b then of_char b - of_char (CHR ''0'')
      else if between (CHR ''a'') (CHR ''f'') b then of_char b - of_char (CHR ''a'') + 10
      else if between (CHR ''A'') (CHR ''F'') b then of_char b - of_char (CHR ''A'') + 10
      else 0)"

text \<open>
  \<open>unescape\<close>, first pass: every percent sign is followed by two hexadecimal digits; in
  a host only non-ASCII bytes (and \<open>%25\<close>) may be escaped, and the unescaped bytes of a host
  are those that need no escaping there.
\<close>

fun unescape_check :: "encoding \<Rightarrow> string \<Rightarrow> error option" where
  "unescape_check mode [] = None"
| "unescape_check mode (c # cs) =
     (if c = CHR ''%'' then
        (case cs of
           h1 # h2 # rest \<Rightarrow>
             if \<not> ishex h1 \<or> \<not> ishex h2 then Some (EscapeError (take 3 (c # cs)))
             else if mode = encodeHost \<and> unhex h1 < 8 \<and> [c, h1, h2] \<noteq> ''%25''
               then Some (EscapeError [c, h1, h2])
             else if mode = encodeZone \<and> [c, h1, h2] \<noteq> ''%25''
                     \<and> char_of (unhex h1 * 16 + unhex h2) \<noteq> CHR '' ''
                     \<and> shouldEscape (char_of (unhex h1 * 16 + unhex h2)) encodeHost
               then Some (EscapeError [c, h1, h2])
             else unescape_check mode rest
         | _ \<Rightarrow> Some (EscapeError (take 3 (c # cs))))
      else if c = CHR ''+'' then unescape_check mode cs
      else if (mode = encodeHost \<or> mode = encodeZone) \<and> (of_char c :: nat) < 128
              \<and> shouldEscape c encodeHost
        then Some (InvalidHostError [c])
      else unescape_check mode cs)"

text \<open>Second pass, on a string that passed the first: the escapes are replaced.\<close>

fun unescape_bytes :: "encoding \<Rightarrow> string \<Rightarrow> string" where
  "unescape_bytes mode (c # h1 # h2 # rest) =
     (if c = CHR ''%'' then char_of (unhex h1 * 16 + unhex h2) # unescape_bytes mode rest
      else if c = CHR ''+'' \<and> mode = encodeQueryComponent
        then CHR '' '' # unescape_bytes mode (h1 # h2 # rest)
      else c # unescape_bytes mode (h1 # h2 # rest))"
| "unescape_bytes mode (c # cs) =
     (if c = CHR ''+'' \<and> mode = encodeQueryComponent then CHR '' '' # unescape_bytes mode cs
      else c # unescape_bytes mode cs)"
| "unescape_bytes mode [] = []"

definition unescape :: "string \<Rightarrow> encoding \<Rightarrow> error + string" where
  "unescape s mode =
     (case unescape_check mode s of Some e \<Rightarrow> Inl e | None \<Rightarrow> Inr (unescape_bytes mode s))"

definition QueryUnescape :: "string \<Rightarrow> error + string" where
  "QueryUnescape s = unescape s encodeQueryComponent"

definition empty_URL :: URL where
  "empty_URL =
     \<lparr>Scheme = '''', Opaque = '''', User = None, Host = '''', Path = '''', RawPath = '''',
      OmitHost = False, ForceQuery = False, RawQuery = '''', Fragment = '''', RawFragment = ''''\<rparr>"

definition stringContainsCTLByte :: "string \<Rightarrow> bool" where
  "stringContainsCTLByte s \<longleftrightarrow> list_ex (\<lambda>b. b < CHR '' '' \<or> b = CHR 0x7F) s"

text \<open>
  \<open>getScheme\<close> scans for the colon that ends a scheme; \<open>i\<close> is the position reached
  in \<open>rawURL\<close> and the third argument what is left from there.
\<close>

fun getScheme_from :: "nat \<Rightarrow> string \<Rightarrow> string \<Rightarrow> error + string \<times> string" where
  "getScheme_from i rawURL [] = Inr ('''', rawURL)"
| "getScheme_from i rawURL (c # cs) =
     (if between (CHR ''a'') (CHR ''z'') c \<or> between (CHR ''A'') (CHR ''Z'') c
        then getScheme_from (Suc i) rawURL cs
      else if between (CHR ''0'') (CHR ''9'') c \<or> c = CHR ''+'' \<or> c = CHR ''-'' \<or> c = CHR ''.''
        then (if i = 0 then Inr ('''', rawURL) else getScheme_from (Suc i) rawURL cs)
      else if c = CHR '':''
        then (if i = 0 then Inl (ErrorString ''missing protocol scheme'')
              else Inr (take i rawURL, drop (Suc i) rawURL))
      else Inr ('''', rawURL))"

definition getScheme :: "string \<Rightarrow> error + string \<times> string" where
  "getScheme rawURL = getScheme_from 0 rawURL rawURL"

definition validOptionalPort :: "string \<Rightarrow> bool" where
  "validOptionalPort port \<longleftrightarrow>
     (case port of
        [] \<Rightarrow> True
      | c # ds \<Rightarrow> c = CHR '':'' \<and> list_all (between (CHR ''0'') (CHR ''9'')) ds)"

definition validUserinfo :: "string \<Rightarrow> bool" where
  "validUserinfo s \<longleftrightarrow> list_all (\<lambda>r. is_alnum r \<or> r \<in> set ''-._:~!$&'()*+,;=%@'') s"

definition quote_port :: "string \<Rightarrow> string" where
  "quote_port colonPort = ''invalid port '' @ colonPort @ '' after host''"

text \<open>
  Two corners of \<open>net/url\<close> are not the same in every release of Go, and the package
  under study was written for an early one: which hosts with a bracket (an IP literal) or
  with more than one colon \<open>parseHost\<close> accepts, and what \<open>resolvePath\<close> makes of a path
  with a dot segment or an empty segment. They are parameters of the model, so that what is
  proved holds whatever a release answers there. Everywhere else the functions below are
  those of the library.
\<close>

record NetURL =
  host_literal :: "string \<Rightarrow> error + string"
  dot_segments :: "string \<Rightarrow> string"

text \<open>
  \<open>parseHost\<close> on a host without bracket and with at most one colon: the text from the
  colon on must be a port, and the host must be valid under the rules of unescaping a host.
  The message of an invalid port quotes the port with \<open>%q\<close>, which is not reproduced.
\<close>

definition parseHost :: "NetURL \<Rightarrow> string \<Rightarrow> error + string" where
  "parseHost lib host =
     (if CHR ''['' \<in> set host \<or> CHR '']'' \<in> set host \<or> 1 < count_list host (CHR '':'')
        then host_literal lib host
      else
        (case LastIndexByte host (CHR '':'') of
           Some i \<Rightarrow>
             if \<not> validOptionalPort (drop i host)
               then Inl (ErrorString (quote_port (drop i host)))
             else unescape host encodeHost
         | None \<Rightarrow> unescape host encodeHost))"

text \<open>\<open>parseAuthority\<close>: the optional user information before the last \<open>@\<close>, and the host.\<close>

definition parseUserinfo :: "string \<Rightarrow> error + (string \<times> string option)" where
  "parseUserinfo userinfo =
     (if \<not> validUserinfo userinfo then Inl (ErrorString ''net/url: invalid userinfo'')
      else if \<not> Contains userinfo '':'' then
        (case unescape userinfo encodeUserPassword of
           Inl e \<Rightarrow> Inl e
         | Inr username \<Rightarrow> Inr (username, None))
      else
        (case Cut userinfo '':'' of (username, password, _) \<Rightarrow>
           (case unescape username encodeUserPassword of
              Inl e \<Rightarrow> Inl e
            | Inr username \<Rightarrow>
                (case unescape password encodeUserPassword of
                   Inl e \<Rightarrow> Inl e
                 | Inr password \<Rightarrow> Inr (username, Some password)))))"

definition parseAuthority ::
  "NetURL \<Rightarrow> string \<Rightarrow> error + ((string \<times> string option) option \<times> string)" where
  "parseAuthority lib authority =
     (case LastIndexByte authority (CHR ''@'') of
        None \<Rightarrow>
          (case parseHost lib authority of Inl e \<Rightarrow> Inl e | Inr host \<Rightarrow> Inr (None, host))
      | Some i \<Rightarrow>
          (case parseHost lib (drop (Suc i) authority) of
             Inl e \<Rightarrow> Inl e
           | Inr host \<Rightarrow>
               (case parseUserinfo (take i authority) of
                  Inl e \<Rightarrow> Inl e
                | Inr user \<Rightarrow> Inr (Some user, host))))"

text \<open>
  \<open>setPath\<close> and \<open>setFragment\<close> store the unescaped text, and the raw text only when it
  is not the default escaping of the unescaped one.
\<close>

definition setPath :: "URL \<Rightarrow> string \<Rightarrow> error + URL" where
  "setPath u p =
     (case unescape p encodePath of
        Inl e \<Rightarrow> Inl e
      | Inr path \<Rightarrow>
          Inr (u\<lparr>Path := path, RawPath := (if p = escape path encodePath then '''' else p)\<rparr>))"

definition setFragment :: "URL \<Rightarrow> string \<Rightarrow> error + URL" where
  "setFragment u f =
     (case unescape f encodeFragment of
        Inl e \<Rightarrow> Inl e
      | Inr frag \<Rightarrow>
          Inr (u\<lparr>Fragment := frag,
                 RawFragment := (if f = escape frag encodeFragment then '''' else f)\<rparr>))"

text \<open>
  \<open>parse\<close> with \<open>viaRequest = false\<close>, the only way \<open>url.Parse\<close> calls it: scheme, query,
  then an opaque rest, or authority and path.
\<close>

definition parse_rest :: "NetURL \<Rightarrow> URL \<Rightarrow> string \<Rightarrow> error + URL" where
  "parse_rest lib u rest =
     (if \<not> HasPrefix rest ''/'' \<and> Scheme u \<noteq> '''' then Inr (u\<lparr>Opaque := rest\<rparr>)
      else if \<not> HasPrefix rest ''/'' \<and> Contains (fst (Cut rest ''/'')) '':''
        then Inl (ErrorString ''first path segment in URL cannot contain colon'')
      else if (Scheme u \<noteq> '''' \<or> \<not> HasPrefix rest ''///'') \<and> HasPrefix rest ''//'' then
        (let authority = drop 2 rest;
             (authority, rest) =
               (case Index authority ''/'' of
                  Some i \<Rightarrow> (take i authority, drop i authority)
                | None \<Rightarrow> (authority, ''''))
         in case parseAuthority lib authority of
              Inl e \<Rightarrow> Inl e
            | Inr (user, host) \<Rightarrow> setPath (u\<lparr>User := user, Host := host\<rparr>) rest)
      else if Scheme u \<noteq> '''' \<and> HasPrefix rest ''/'' then setPath (u\<lparr>OmitHost := True\<rparr>) rest
      else setPath u rest)"

definition parse :: "NetURL \<Rightarrow> string \<Rightarrow> error + URL" where
  "parse lib rawURL =
     (if stringContainsCTLByte rawURL
        then Inl (ErrorString ''net/url: invalid control character in URL'')
      else if rawURL = ''*'' then Inr (empty_URL\<lparr>Path := ''*''\<rparr>)
      else
        (case getScheme rawURL of
           Inl e \<Rightarrow> Inl e
         | Inr (scheme, rest) \<Rightarrow>
             (let u = empty_URL\<lparr>Scheme := map ToLower_byte scheme\<rparr> in
              if HasSuffix rest ''?'' \<and> count_list rest (CHR ''?'') = 1
                then parse_rest lib (u\<lparr>ForceQuery := True\<rparr>) (butlast rest)
              else
                (case Cut rest ''?'' of (rest, query, _) \<Rightarrow>
                   parse_rest lib (u\<lparr>RawQuery := query\<rparr>) rest))))"

text \<open>\<open>url.Parse\<close>: the fragment is cut off first; an error names the operation and the URL.\<close>

definition url_Parse :: "NetURL \<Rightarrow> string \<Rightarrow> error + URL" where
  "url_Parse lib rawURL =
     (case Cut rawURL ''#'' of (u, frag, _) \<Rightarrow>
        (case parse lib u of
           Inl err \<Rightarrow> Inl (URLError ''parse'' u err)
         | Inr url \<Rightarrow>
             if frag = '''' then Inr url
             else
               (case setFragment url frag of
                  Inl err \<Rightarrow> Inl (URLError ''parse'' rawURL err)
                | Inr url \<Rightarrow> Inr url)))"

section \<open>Torrents and magnet links\<close>

text \<open>
  \<open>time.Time\<close> as the library stores it: the wall word (whose top bit says that a
  monotonic reading is present) and the seconds since year 1, a signed 64-bit number.
\<close>

record Time =
  wall :: "64 word"
  ext :: int64

record Torrent =
  T_URL :: "URL option"
  Hash :: string
  Quality :: string
  Type :: string
  Seeds :: go_uint
  Peers :: go_uint
  Size :: string
  SizeBytes :: go_uint
  T_DateUploaded :: Time
  T_DateUploadedUnix :: int64
  movieName :: string

definition DefaultTackers :: "string list" where
  "DefaultTackers =
    [''udp://open.demonii.com:1337/announce'',
     ''udp://tracker.openbittorrent.com:80'',
     ''udp://tracker.coppersurfer.tk:6969'',
     ''udp://glotorrents.pw:6969/announce'',
     ''udp://tracker.opentrackr.org:1337/announce'',
     ''udp://torrent.gresille.org:80/announce'',
     ''udp://p4p.arenabg.com:1337'',
     ''udp://tracker.leechers-paradise.org:6969'']"

definition Magnet :: "Torrent \<Rightarrow> string list \<Rightarrow> string" where
  "Magnet t trackers =
     (let v = Values_Set ''dn'' (movieName t) [];
          trckrs = (if length trackers > 0 then trackers else DefaultTackers);
          v = fold (\<lambda>tr v. Values_Add ''tr'' tr v) trckrs v
      in ''magnet:?xt=urn:btih:'' @ Hash t @ ''&'' @ Values_Encode v)"

text \<open>The torrent of the repository's test of \<open>Magnet\<close>.\<close>

definition testTorrent :: Torrent where
  "testTorrent =
     \<lparr>T_URL = None, Hash = ''HASH123'', Quality = [], Type = [], Seeds = 0, Peers = 0,
      Size = [], SizeBytes = 0, T_DateUploaded = \<lparr>wall = 0, ext = 0\<rparr>,
      T_DateUploadedUnix = 0, movieName = ''Name of cool movie''\<rparr>"

section \<open>Resolving references and reading queries (\<open>net/url\<close>)\<close>

text \<open>\<open>validEncoded\<close> and \<open>EscapedPath\<close>: the raw path is used when it is a valid encoding of the path.\<close>

definition validEncoded :: "string \<Rightarrow> encoding \<Rightarrow> bool" where
  "validEncoded s mode \<longleftrightarrow>
     list_all (\<lambda>b. b \<in> set ''!$&'()*+,;=:@[]%'' \<or> \<not> shouldEscape b mode) s"

definition EscapedPath :: "URL \<Rightarrow> string" where
  "EscapedPath u =
     (if RawPath u \<noteq> '''' \<and> validEncoded (RawPath u) encodePath
         \<and> unescape (RawPath u) encodePath = Inr (Path u) then RawPath u
      else if Path u = ''*'' then ''*''
      else escape (Path u) encodePath)"

text \<open>The pieces of a string between the occurrences of a separator byte.\<close>

fun split_on :: "char \<Rightarrow> string \<Rightarrow> string list" where
  "split_on sep [] = [[]]"
| "split_on sep (b # bs) =
     (if b = sep then [] # split_on sep bs
      else (case split_on sep bs of [] \<Rightarrow> [[b]] | piece # pieces \<Rightarrow> (b # piece) # pieces))"

text \<open>
  \<open>resolvePath\<close> joins the reference to what the base has up to its last slash, and then
  walks through the elements of the joined path. When no element is a dot segment and none
  but the first and the last is empty, the walk writes the joined path again, with a slash in
  front; any other path is left to the parameter.
\<close>

definition plain_elems :: "string list \<Rightarrow> bool" where
  "plain_elems elems \<longleftrightarrow>
     list_all (\<lambda>elem. elem \<noteq> ''.'' \<and> elem \<noteq> ''..'') elems
     \<and> list_all (\<lambda>elem. elem \<noteq> '''') (butlast (tl elems))"

definition resolvePath :: "NetURL \<Rightarrow> string \<Rightarrow> string \<Rightarrow> string" where
  "resolvePath lib base ref =
     (let full =
            (if ref = '''' then base
             else if hd ref \<noteq> CHR ''/'' then
               (case LastIndexByte base (CHR ''/'') of
                  None \<Rightarrow> ref
                | Some i \<Rightarrow> take (Suc i) base @ ref)
             else ref)
      in if full = '''' then ''''
         else if plain_elems (split_on (CHR ''/'') full)
           then (if hd full = CHR ''/'' then full else ''/'' @ full)
         else dot_segments lib full)"

text \<open>\<open>setPath\<close> where the caller ignores its error: the URL is then left as it was.\<close>

definition setPath_ignore :: "URL \<Rightarrow> string \<Rightarrow> URL" where
  "setPath_ignore u p = (case setPath u p of Inl _ \<Rightarrow> u | Inr u' \<Rightarrow> u')"

definition ResolveReference :: "NetURL \<Rightarrow> URL \<Rightarrow> URL \<Rightarrow> URL" where
  "ResolveReference lib u ref =
     (let url = (if Scheme ref = '''' then ref\<lparr>Scheme := Scheme u\<rparr> else ref) in
      if Scheme ref \<noteq> '''' \<or> Host ref \<noteq> '''' \<or> User ref \<noteq> None
        then setPath_ignore url (resolvePath lib (EscapedPath ref) '''')
      else if Opaque ref \<noteq> '''' then url\<lparr>User := None, Host := '''', Path := ''''\<rparr>
      else
        (let url =
               (if Path ref = '''' \<and> \<not> ForceQuery ref \<and> RawQuery ref = '''' then
                  (if Fragment ref = '''' then
                     url\<lparr>RawQuery := RawQuery u, Fragment := Fragment u,
                         RawFragment := RawFragment u\<rparr>
                   else url\<lparr>RawQuery := RawQuery u\<rparr>)
                else url)
         in if Path ref = '''' \<and> Opaque u \<noteq> ''''
              then url\<lparr>Opaque := Opaque u, User := None, Host := '''', Path := ''''\<rparr>
            else setPath_ignore (url\<lparr>Host := Host u, User := User u\<rparr>)
                   (resolvePath lib (EscapedPath u) (EscapedPath ref))))"

text \<open>
  \<open>URL.Query\<close> parses the raw query and drops the error: a piece with a semicolon, an
  empty piece and a piece whose key or value does not unescape are skipped.
\<close>

definition parseQuery_piece :: "string \<Rightarrow> Values \<Rightarrow> Values" where
  "parseQuery_piece piece m =
     (if Contains piece '';'' then m
      else if piece = '''' then m
      else
        (case Cut piece ''='' of (key, val, _) \<Rightarrow>
           (case QueryUnescape key of
              Inl _ \<Rightarrow> m
            | Inr key \<Rightarrow>
                (case QueryUnescape val of
                   Inl _ \<Rightarrow> m
                 | Inr val \<Rightarrow> Values_Add key val m))))"

definition URL_Query :: "URL \<Rightarrow> Values" where
  "URL_Query u = fold parseQuery_piece (split_on (CHR ''&'') (RawQuery u)) []"

section \<open>The client and its options (\<open>ytsgo.go\<close>)\<close>

definition DefaultBaseURL :: string where
  "DefaultBaseURL = ''https://yts.lt/api/v2/''"

definition statusOK :: string where
  "statusOK = ''ok''"

text \<open>A \<open>time.Duration\<close> counts nanoseconds in a signed 64-bit integer.\<close>

definition time_Second :: int64 where
  "time_Second = 1000000000"

definition DefaultTimeout :: int64 where
  "DefaultTimeout = time_Second * 10"

text \<open>The package's table of endpoints, a Go map, as the list of its entries.\<close>

definition urls :: "(string \<times> string) list" where
  "urls =
     [(''movieURL'', ''movie_details.json''),
      (''listMoviesURL'', ''list_movies.json''),
      (''suggestionsURL'', ''movie_suggestions.json'')]"

text \<open>
  The client. The pointer \<open>baseURL\<close> is \<open>None\<close> while it is nil; of the \<open>http.Client\<close> the
  client owns, only the timeout is set by this package.
\<close>

record Client =
  baseURLStr :: string
  baseURL :: "URL option"
  userAgent :: string
  httpClient_Timeout :: int64
  c_urls :: "(string \<times> URL) list"

type_synonym ClientOption = "Client \<Rightarrow> Client"

definition BaseURL :: "string \<Rightarrow> ClientOption" where
  "BaseURL url = (\<lambda>c. c\<lparr>baseURLStr := url\<rparr>)"

definition HTTPTimeout :: "int64 \<Rightarrow> ClientOption" where
  "HTTPTimeout d = (\<lambda>c. c\<lparr>httpClient_Timeout := d\<rparr>)"

definition UserAgent :: "string \<Rightarrow> ClientOption" where
  "UserAgent ua = (\<lambda>c. c\<lparr>userAgent := ua\<rparr>)"

text \<open>
  The variables of the package: \<open>DefaultTimeout\<close> and \<open>urls\<close> of \<open>ytsgo.go\<close>, and
  \<open>DefaultTackers\<close> of \<open>movie.go\<close>. A function that could assign one of them takes their
  values and returns them. \<open>declared\<close> holds the values they are declared with;
  \<open>Magnet\<close> above is stated for the trackers as declared.
\<close>

record Globals =
  G_DefaultTimeout :: int64
  G_urls :: "(string \<times> string) list"
  G_DefaultTackers :: "string list"

definition declared :: Globals where
  "declared =
     \<lparr>G_DefaultTimeout = DefaultTimeout, G_urls = urls, G_DefaultTackers = DefaultTackers\<rparr>"

text \<open>
  The loop of \<open>New\<close> over the table of endpoints: each path is parsed and stored in the
  map of the client, and the first one that does not parse ends the loop. (Go visits the
  entries of a map in no fixed order; the order matters only for which error is returned
  when two entries do not parse.)
\<close>

fun parse_urls :: "NetURL \<Rightarrow> (string \<times> string) list \<Rightarrow> Client \<Rightarrow> error + Client" where
  "parse_urls lib [] c = Inr c"
| "parse_urls lib ((k, u) # rest) c =
     (case url_Parse lib u of
        Inl err \<Rightarrow> Inl err
      | Inr ur \<Rightarrow> parse_urls lib rest (c\<lparr>c_urls := AList.update k ur (c_urls c)\<rparr>))"

text \<open>\<open>New\<close> returns the error or the client, and the variables of the package.\<close>

definition New :: "NetURL \<Rightarrow> Globals \<Rightarrow> ClientOption list \<Rightarrow> (error + Client) \<times> Globals" where
  "New lib g opts =
     (let c = \<lparr>baseURLStr = DefaultBaseURL, baseURL = None, userAgent = '''',
               httpClient_Timeout = G_DefaultTimeout g, c_urls = []\<rparr>;
          c = fold (\<lambda>opt c. opt c) opts c
      in case url_Parse lib (baseURLStr c) of
           Inl err \<Rightarrow> (Inl err, g)
         | Inr b \<Rightarrow> (parse_urls lib (G_urls g) (c\<lparr>baseURL := Some b\<rparr>), g))"

section \<open>Query options of the lookups\<close>

type_synonym MovieOption = "Values \<Rightarrow> Values"



type_synonym ListMoviesOption = "Values \<Rightarrow> Values"

definition LMLimit :: "go_uint \<Rightarrow> ListMoviesOption" where
  "LMLimit l = (\<lambda>v. let l = (if l > 50 then 50 else l) in Values_Set ''limit'' (fmt_uint l) v)"

definition LMPage :: "go_uint \<Rightarrow> ListMoviesOption" where
  "LMPage p = (\<lambda>v. Values_Set ''page'' (fmt_uint p) v)"

definition LMQuality :: "string \<Rightarrow> ListMoviesOption" where
  "LMQuality q = (\<lambda>v. Values_Set ''quality'' q v)"

definition LMMinimumRating :: "go_uint \<Rightarrow> ListMoviesOption" where
  "LMMinimumRating r =
     (\<lambda>v. let r = (if r > 9 then 9 else r) in Values_Set ''minimum_rating'' (fmt_uint r) v)"

definition LMSearch :: "string \<Rightarrow> ListMoviesOption" where
  "LMSearch q = (\<lambda>v. Values_Set ''query_term'' q v)"

definition LMGenre :: "string \<Rightarrow> ListMoviesOption" where
  "LMGenre g = (\<lambda>v. Values_Set ''genre'' g v)"

definition LMSortBy :: "string \<Rightarrow> ListMoviesOption" where
  "LMSortBy s = (\<lambda>v. Values_Set ''sort_by'' s v)"

definition LMOrderBy :: "string \<Rightarrow> ListMoviesOption" where
  "LMOrderBy s = (\<lambda>v. Values_Set ''order_by'' s v)"

section \<open>Requests\<close>

text \<open>
  A function that returns a value and an error, or that may panic, returns a \<open>result\<close>:
  the value, the error, or the panic, which no caller in this package recovers from.
\<close>

datatype 'a result = Ok 'a | Failed error | Panic

record Request =
  Method :: string
  R_URL :: URL
  Header :: "(string \<times> string) list"

text \<open>
  Of a response the client reads the status and the body. The body is what the JSON
  decoder of the standard library finds in it: a syntax or read error, or one JSON value.
\<close>

datatype number = Number (negative: bool) (int_part: nat) (frac_digits: "nat list") (exponent: "int option")

datatype json =
    JNull
  | JBool bool
  | JNumber number
  | JString string
  | JArray "json list"
  | JObject "(string \<times> json) list"

record Response =
  StatusCode :: int
  Status :: string
  Body :: "error + json"

text \<open>
  What lies outside the program is a parameter of the model: whether \<open>http.NewRequest\<close>
  accepts the text of the URL, and what \<open>http.Client.Do\<close> answers to a request under the
  client's timeout.
\<close>

record HTTP =
  NewRequest_error :: "string \<Rightarrow> URL \<Rightarrow> error option"
  Do :: "int64 \<Rightarrow> Request \<Rightarrow> error + Response"

definition newRequest :: "HTTP \<Rightarrow> Client \<Rightarrow> URL \<Rightarrow> Values \<Rightarrow> error + Request" where
  "newRequest http c u params =
     (let u = u\<lparr>RawQuery := Values_Encode params\<rparr> in
      case NewRequest_error http ''GET'' u of
        Some err \<Rightarrow> Inl err
      | None \<Rightarrow>
          (let req = \<lparr>Method = ''GET'', R_URL = u, Header = []\<rparr>;
               req = req\<lparr>Header := AList.update ''Accept'' ''application/json'' (Header req)\<rparr>
           in if userAgent c \<noteq> ''''
                then Inr (req\<lparr>Header := AList.update ''User-Agent'' (userAgent c) (Header req)\<rparr>)
              else Inr req))"

text \<open>
  The first lines of each lookup: the endpoint is resolved against the base URL, and the
  query starts from the one of the resolved URL. A nil base URL or a missing endpoint is a
  nil pointer dereference.
\<close>

definition endpoint :: "NetURL \<Rightarrow> Client \<Rightarrow> string \<Rightarrow> URL result" where
  "endpoint lib c name =
     (case baseURL c of
        None \<Rightarrow> Panic
      | Some b \<Rightarrow>
          (case map_of (c_urls c) name of
             None \<Rightarrow> Panic
           | Some ref \<Rightarrow> Ok (ResolveReference lib b ref)))"

definition Movie_params :: "URL \<Rightarrow> go_int \<Rightarrow> MovieOption list \<Rightarrow> Values" where
  "Movie_params u movieID opts =
     (let params = URL_Query u;
          params = Values_Set ''movie_id'' (fmt_int (sint movieID)) params
      in fold (\<lambda>opt params. opt params) opts params)"

definition ListMovies_params :: "URL \<Rightarrow> ListMoviesOption list \<Rightarrow> Values" where
  "ListMovies_params u opts = fold (\<lambda>opt params. opt params) opts (URL_Query u)"

definition Suggestions_params :: "URL \<Rightarrow> go_int \<Rightarrow> Values" where
  "Suggestions_params u movieID = Values_Set ''movie_id'' (fmt_int (sint movieID)) (URL_Query u)"

section \<open>Time (\<open>time\<close>)\<close>

definition unixToInternal :: int64 where
  "unixToInternal = (1969 * 365 + 1969 div 4 - 1969 div 100 + 1969 div 400) * 86400"

definition internalToUnix :: int64 where
  "internalToUnix = - unixToInternal"

definition wallToInternal :: int64 where
  "wallToInternal = (1884 * 365 + 1884 div 4 - 1884 div 100 + 1884 div 400) * 86400"

definition hasMonotonic :: "64 word" where
  "hasMonotonic = push_bit 63 1"

definition quo :: "int \<Rightarrow> int \<Rightarrow> int" where
  "quo a b = sgn a * sgn b * (\<bar>a\<bar> div \<bar>b\<bar>)"

text \<open>
  \<open>time.Unix\<close>: nanoseconds outside \<open>[0, 1e9)\<close> are carried into the seconds, with Go's
  truncating division; the seconds are then counted from year 1, in 64 bits.
\<close>

definition time_Unix :: "int64 \<Rightarrow> int64 \<Rightarrow> Time" where
  "time_Unix sec nsec =
     (let (sec, nsec) =
            (if nsec <s 0 \<or> 1000000000 \<le>s nsec then
               (let n = word_of_int (quo (sint nsec) 1000000000) :: int64;
                    sec = sec + n;
                    nsec = nsec - n * 1000000000
                in if nsec <s 0 then (sec - 1, nsec + 1000000000) else (sec, nsec))
             else (sec, nsec))
      in \<lparr>wall = nsec, ext = sec + unixToInternal\<rparr>)"

text \<open>\<open>Time.Unix\<close>, the seconds since the epoch of a time.\<close>

definition Time_sec :: "Time \<Rightarrow> int64" where
  "Time_sec t =
     (if wall t AND hasMonotonic \<noteq> 0 then wallToInternal + drop_bit 31 (push_bit 1 (wall t))
      else ext t)"

definition Time_Unix :: "Time \<Rightarrow> int64" where
  "Time_Unix t = Time_sec t + internalToUnix"

definition zero_Time :: Time where
  "zero_Time = \<lparr>wall = 0, ext = 0\<rparr>"

section \<open>Decoding JSON into Go values (\<open>encoding/json\<close>)\<close>

text \<open>
  The decoder of the standard library is modelled on parsed documents. A number keeps the
  shape of its literal, since an integer field accepts only a literal without fraction and
  exponent. A value of the wrong kind for a field is a type error: the first one of a
  call of \<open>json.Unmarshal\<close> is saved, the field is left as it was, and decoding goes on. The
  error of an \<open>UnmarshalJSON\<close> method ends the call at once.

  The message of a type error names the kind of the value and the Go type only.
\<close>

fun kind :: "json \<Rightarrow> string" where
  "kind JNull = ''null''"
| "kind (JBool _) = ''bool''"
| "kind (JNumber _) = ''number''"
| "kind (JString _) = ''string''"
| "kind (JArray _) = ''array''"
| "kind (JObject _) = ''object''"

definition first_error :: "error option \<Rightarrow> error option \<Rightarrow> error option" where
  "first_error saved e = (case saved of None \<Rightarrow> e | Some _ \<Rightarrow> saved)"

definition is_integer_literal :: "number \<Rightarrow> bool" where
  "is_integer_literal n \<longleftrightarrow> frac_digits n = [] \<and> exponent n = None"

text \<open>\<open>strconv.ParseInt(s, 10, 64)\<close> and \<open>strconv.ParseUint(s, 10, 64)\<close> on a JSON number.\<close>

definition ParseInt :: "number \<Rightarrow> int64 option" where
  "ParseInt n =
     (let v = (if negative n then - int (int_part n) else int (int_part n)) in
      if is_integer_literal n \<and> - (2 ^ 63) \<le> v \<and> v < 2 ^ 63 then Some (word_of_int v) else None)"

definition ParseUint :: "number \<Rightarrow> go_uint option" where
  "ParseUint n =
     (if is_integer_literal n \<and> \<not> negative n \<and> int_part n < 2 ^ 64
        then Some (of_nat (int_part n)) else None)"

text \<open>
  \<open>strconv.ParseFloat(s, 32)\<close> fails on a JSON number only when it rounds to infinity,
  that is from \<open>2^128 - 2^103\<close> on. The digits of the literal, read as one natural number,
  are scaled by a power of ten. The \<open>float32\<close> itself is not computed: a field of that type
  holds the literal it was read from.
\<close>

definition all_digits :: "number \<Rightarrow> nat" where
  "all_digits n = foldl (\<lambda>a d. 10 * a + d) (int_part n) (frac_digits n)"

definition scale :: "number \<Rightarrow> int" where
  "scale n = (case exponent n of None \<Rightarrow> 0 | Some e \<Rightarrow> e) - int (length (frac_digits n))"

definition overflows_float32 :: "number \<Rightarrow> bool" where
  "overflows_float32 n \<longleftrightarrow>
     (if 0 \<le> scale n then 2 ^ 128 - 2 ^ 103 \<le> all_digits n * 10 ^ nat (scale n)
      else (2 ^ 128 - 2 ^ 103) * 10 ^ nat (- scale n) \<le> all_digits n)"

type_synonym float32 = number

definition zero_float32 :: float32 where
  "zero_float32 = Number False 0 [] None"

text \<open>Storing a JSON value into a field of a basic type: the saved error and the new value.\<close>

definition store_string :: "json \<Rightarrow> string \<Rightarrow> error option \<times> string" where
  "store_string v cur =
     (case v of
        JString s \<Rightarrow> (None, s)
      | JNull \<Rightarrow> (None, cur)
      | _ \<Rightarrow> (Some (UnmarshalTypeError (kind v) ''string''), cur))"

definition store_uint :: "json \<Rightarrow> go_uint \<Rightarrow> error option \<times> go_uint" where
  "store_uint v cur =
     (case v of
        JNumber n \<Rightarrow>
          (case ParseUint n of
             Some w \<Rightarrow> (None, w)
           | None \<Rightarrow> (Some (UnmarshalTypeError (kind v) ''uint''), cur))
      | JNull \<Rightarrow> (None, cur)
      | _ \<Rightarrow> (Some (UnmarshalTypeError (kind v) ''uint''), cur))"

definition store_int64 :: "json \<Rightarrow> int64 \<Rightarrow> error option \<times> int64" where
  "store_int64 v cur =
     (case v of
        JNumber n \<Rightarrow>
          (case ParseInt n of
             Some w \<Rightarrow> (None, w)
           | None \<Rightarrow> (Some (UnmarshalTypeError (kind v) ''int64''), cur))
      | JNull \<Rightarrow> (None, cur)
      | _ \<Rightarrow> (Some (UnmarshalTypeError (kind v) ''int64''), cur))"

definition store_float32 :: "json \<Rightarrow> float32 \<Rightarrow> error option \<times> float32" where
  "store_float32 v cur =
     (case v of
        JNumber n \<Rightarrow>
          (if overflows_float32 n then (Some (UnmarshalTypeError (kind v) ''float32''), cur)
           else (None, n))
      | JNull \<Rightarrow> (None, cur)
      | _ \<Rightarrow> (Some (UnmarshalTypeError (kind v) ''float32''), cur))"

text \<open>
  A slice is more than its elements: the array behind it may hold further elements, which
  an earlier, longer value left there. The decoder of an array decodes element \<open>i\<close> of the
  document into element \<open>i\<close> of that array, whether the slice reached so far or not, and
  into a zero value where the array ends; it then sets the length to the number of elements
  read. So a slice is modelled as its elements and the elements of the array after them.
  The capacity to which the library grows an array is not modelled: what it adds holds zero
  values, which is what decoding starts from where \<open>spare\<close> ends. An empty array gives a
  new empty slice, \<open>null\<close> the nil slice.
\<close>

datatype 'a slice = Slice (elems: "'a list") (spare: "'a list")

definition nil_slice :: "'a slice" where
  "nil_slice = Slice [] []"

text \<open>
  The elements of an array of strings, stored into the elements of the array behind the
  slice: a value that is no string leaves the element as it was.
\<close>

fun store_elems :: "json list \<Rightarrow> string list \<Rightarrow> error option \<times> string list" where
  "store_elems [] backing = (None, [])"
| "store_elems (x # xs) backing =
     (case store_string x (case backing of [] \<Rightarrow> '''' | b # _ \<Rightarrow> b) of (e, s) \<Rightarrow>
        (case store_elems xs (tl backing) of (e', ss) \<Rightarrow> (first_error e e', s # ss)))"

definition store_strings :: "json \<Rightarrow> string slice \<Rightarrow> error option \<times> string slice" where
  "store_strings v cur =
     (case v of
        JArray xs \<Rightarrow>
          (case store_elems xs (elems cur @ spare cur) of (e, ss) \<Rightarrow>
             (e, if xs = [] then Slice [] []
                 else Slice ss (drop (length xs) (elems cur @ spare cur))))
      | JNull \<Rightarrow> (None, nil_slice)
      | _ \<Rightarrow> (Some (UnmarshalTypeError (kind v) ''[]string''), cur))"

text \<open>
  A pointer to a type with an \<open>UnmarshalJSON\<close> method: \<open>null\<close> makes it nil, any other value
  is handed to the method, on the value pointed to or on a new zero value.
\<close>

definition store_ptr ::
  "(json \<Rightarrow> 'a \<Rightarrow> 'a result) \<Rightarrow> 'a \<Rightarrow> json \<Rightarrow> 'a option \<Rightarrow> (error option \<times> 'a option) result" where
  "store_ptr unmarshal zero v cur =
     (case v of
        JNull \<Rightarrow> Ok (None, None)
      | _ \<Rightarrow>
          (case unmarshal v (case cur of None \<Rightarrow> zero | Some a \<Rightarrow> a) of
             Ok a \<Rightarrow> Ok (None, Some a)
           | Failed err \<Rightarrow> Failed err
           | Panic \<Rightarrow> Panic))"

text \<open>
  A slice of such pointers: the elements are decoded in order, each one through the
  pointer that the array behind the slice holds at its place, a nil pointer where it ends.
\<close>

fun store_ptr_elems ::
  "(json \<Rightarrow> 'a \<Rightarrow> 'a result) \<Rightarrow> 'a \<Rightarrow> json list \<Rightarrow> 'a option list \<Rightarrow> 'a option list result" where
  "store_ptr_elems unmarshal zero [] backing = Ok []"
| "store_ptr_elems unmarshal zero (x # xs) backing =
     (case store_ptr unmarshal zero x (case backing of [] \<Rightarrow> None | b # _ \<Rightarrow> b) of
        Ok (_, p) \<Rightarrow>
          (case store_ptr_elems unmarshal zero xs (tl backing) of
             Ok ps \<Rightarrow> Ok (p # ps)
           | Failed err \<Rightarrow> Failed err
           | Panic \<Rightarrow> Panic)
      | Failed err \<Rightarrow> Failed err
      | Panic \<Rightarrow> Panic)"

definition store_ptrs ::
  "(json \<Rightarrow> 'a \<Rightarrow> 'a result) \<Rightarrow> 'a \<Rightarrow> string \<Rightarrow> json \<Rightarrow> 'a option slice
     \<Rightarrow> (error option \<times> 'a option slice) result" where
  "store_ptrs unmarshal zero ty v cur =
     (case v of
        JArray xs \<Rightarrow>
          (case store_ptr_elems unmarshal zero xs (elems cur @ spare cur) of
             Ok ps \<Rightarrow>
               Ok (None, if xs = [] then Slice [] []
                         else Slice ps (drop (length xs) (elems cur @ spare cur)))
           | Failed err \<Rightarrow> Failed err
           | Panic \<Rightarrow> Panic)
      | JNull \<Rightarrow> Ok (None, nil_slice)
      | _ \<Rightarrow> Ok (Some (UnmarshalTypeError (kind v) ty), cur))"

text \<open>
  The name of a key is matched with the tags of the fields without regard to case. The
  folding of the decoder maps the ASCII letters to upper case, and the Kelvin sign and the
  long s (the only other characters with an ASCII letter in their orbit) to \<open>K\<close> and \<open>S\<close>;
  what it does to other characters cannot make a key equal to a tag of this package.
\<close>

definition upper_byte :: "char \<Rightarrow> char" where
  "upper_byte b = (if between (CHR ''a'') (CHR ''z'') b then char_of (of_char b - (32::nat)) else b)"

fun foldName :: "string \<Rightarrow> string" where
  "foldName (a # b # c # rest) =
     (if [a, b, c] = [CHR 0xE2, CHR 0x84, CHR 0xAA] then CHR ''K'' # foldName rest
      else if [a, b] = [CHR 0xC5, CHR 0xBF] then CHR ''S'' # foldName (c # rest)
      else upper_byte a # foldName (b # c # rest))"
| "foldName [a, b] =
     (if [a, b] = [CHR 0xC5, CHR 0xBF] then ''S'' else upper_byte a # foldName [b])"
| "foldName [a] = [upper_byte a]"
| "foldName [] = []"

declare foldName.simps [simp del]

definition field_of :: "string list \<Rightarrow> string \<Rightarrow> string option" where
  "field_of tags key = find (\<lambda>tag. foldName tag = foldName key) tags"

text \<open>
  An object is decoded into a struct entry by entry, in the order of the document; a key
  that matches no field is skipped. \<open>null\<close> leaves the struct as it is, a value of another
  kind is a type error.
\<close>

fun decode_entries ::
  "string list \<Rightarrow> (string \<Rightarrow> json \<Rightarrow> 's \<Rightarrow> (error option \<times> 's) result) \<Rightarrow> (string \<times> json) list
     \<Rightarrow> error option \<times> 's \<Rightarrow> (error option \<times> 's) result" where
  "decode_entries tags field [] st = Ok st"
| "decode_entries tags field ((k, v) # kvs) (saved, s) =
     (case field_of tags k of
        None \<Rightarrow> decode_entries tags field kvs (saved, s)
      | Some tag \<Rightarrow>
          (case field tag v s of
             Ok (e, s') \<Rightarrow> decode_entries tags field kvs (first_error saved e, s')
           | Failed err \<Rightarrow> Failed err
           | Panic \<Rightarrow> Panic))"

definition decode_struct ::
  "string list \<Rightarrow> (string \<Rightarrow> json \<Rightarrow> 's \<Rightarrow> (error option \<times> 's) result) \<Rightarrow> string \<Rightarrow> json \<Rightarrow> 's
     \<Rightarrow> (error option \<times> 's) result" where
  "decode_struct tags field ty v s =
     (case v of
        JObject kvs \<Rightarrow> decode_entries tags field kvs (None, s)
      | JNull \<Rightarrow> Ok (None, s)
      | _ \<Rightarrow> Ok (Some (UnmarshalTypeError (kind v) ty), s))"

text \<open>\<open>json.Unmarshal\<close> into a struct: the error it returns, or the struct.\<close>

definition json_Unmarshal ::
  "string list \<Rightarrow> (string \<Rightarrow> json \<Rightarrow> 's \<Rightarrow> (error option \<times> 's) result) \<Rightarrow> string \<Rightarrow> json \<Rightarrow> 's
     \<Rightarrow> 's result" where
  "json_Unmarshal tags field ty v s =
     (case decode_struct tags field ty v s of
        Ok (None, s') \<Rightarrow> Ok s'
      | Ok (Some err, _) \<Rightarrow> Failed err
      | Failed err \<Rightarrow> Failed err
      | Panic \<Rightarrow> Panic)"

definition into :: "error option \<times> 'v \<Rightarrow> ('v \<Rightarrow> 's) \<Rightarrow> (error option \<times> 's) result" where
  "into r put = (case r of (e, x) \<Rightarrow> Ok (e, put x))"

definition into_result ::
  "(error option \<times> 'v) result \<Rightarrow> ('v \<Rightarrow> 's) \<Rightarrow> (error option \<times> 's) result" where
  "into_result r put =
     (case r of Ok (e, x) \<Rightarrow> Ok (e, put x) | Failed err \<Rightarrow> Failed err | Panic \<Rightarrow> Panic)"

section \<open>Movies, torrents and cast (\<open>movie.go\<close>)\<close>

record Cast =
  Name :: string
  CharacterName :: string
  C_IMDBCode :: string
  URLSmallImage :: "URL option"

record Movie =
  ID :: go_uint
  M_URL :: "URL option"
  IMDBCode :: string
  Title :: string
  TitleEnglish :: string
  Slug :: string
  Year :: go_uint
  Rating :: float32
  Runtime :: go_uint
  Genres :: "string slice"
  DownloadCount :: go_uint
  LikeCound :: go_uint
  DescriptionIntro :: string
  DescriptionFull :: string
  YouTubeTrailerCode :: string
  Language :: string
  MPARating :: string
  BackgroundImage :: "URL option"
  BackgroundImageOriginal :: "URL option"
  SmallCoverImage :: "URL option"
  MediumCoverImage :: "URL option"
  LargeCoverImage :: "URL option"
  DateUploaded :: Time
  DateUploadedUnix :: int64
  Torrents :: "Torrent option slice"
  Casts :: "Cast option slice"

text \<open>The zero values that \<open>new\<close> and a declaration without initialiser give.\<close>

definition zero_Torrent :: Torrent where
  "zero_Torrent =
     \<lparr>T_URL = None, Hash = '''', Quality = '''', Type = '''', Seeds = 0, Peers = 0, Size = '''',
      SizeBytes = 0, T_DateUploaded = zero_Time, T_DateUploadedUnix = 0, movieName = ''''\<rparr>"

definition zero_Cast :: Cast where
  "zero_Cast = \<lparr>Name = '''', CharacterName = '''', C_IMDBCode = '''', URLSmallImage = None\<rparr>"

definition zero_Movie :: Movie where
  "zero_Movie =
     \<lparr>ID = 0, M_URL = None, IMDBCode = '''', Title = '''', TitleEnglish = '''', Slug = '''',
      Year = 0, Rating = zero_float32, Runtime = 0, Genres = nil_slice, DownloadCount = 0,
      LikeCound = 0, DescriptionIntro = '''', DescriptionFull = '''', YouTubeTrailerCode = '''',
      Language = '''', MPARating = '''', BackgroundImage = None, BackgroundImageOriginal = None,
      SmallCoverImage = None, MediumCoverImage = None, LargeCoverImage = None,
      DateUploaded = zero_Time, DateUploadedUnix = 0, Torrents = nil_slice, Casts = nil_slice\<rparr>"

definition parseTime :: "int64 \<Rightarrow> Time" where
  "parseTime unix = time_Unix unix 0"

text \<open>\<open>parseURL\<close>: the error, or the pointer that is stored in the destination.\<close>

definition parseURL :: "NetURL \<Rightarrow> string \<Rightarrow> error + URL option" where
  "parseURL lib str = (case url_Parse lib str of Inl err \<Rightarrow> Inl err | Inr u \<Rightarrow> Inr (Some u))"

subsection \<open>Torrent\<close>

text \<open>
  The auxiliary struct of \<open>UnmarshalJSON\<close>: the raw URL, and the torrent itself under an
  embedded pointer, so that the keys of the document reach the fields of both. The field
  \<open>movieName\<close> is not exported and has no key.
\<close>

record TorrentAux =
  T_URLRaw :: string
  tor :: Torrent

definition Torrent_tags :: "string list" where
  "Torrent_tags =
     [''url'', ''hash'', ''quality'', ''type'', ''seeds'', ''peers'', ''size'', ''size_bytes'',
      ''date_uploaded_unix'']"

definition tor_field :: "string \<Rightarrow> json \<Rightarrow> Torrent \<Rightarrow> (error option \<times> Torrent) result" where
  "tor_field tag v t =
     (if tag = ''hash'' then into (store_string v (Hash t)) (\<lambda>x. t\<lparr>Hash := x\<rparr>)
      else if tag = ''quality'' then into (store_string v (Quality t)) (\<lambda>x. t\<lparr>Quality := x\<rparr>)
      else if tag = ''type'' then into (store_string v (Type t)) (\<lambda>x. t\<lparr>Type := x\<rparr>)
      else if tag = ''seeds'' then into (store_uint v (Seeds t)) (\<lambda>x. t\<lparr>Seeds := x\<rparr>)
      else if tag = ''peers'' then into (store_uint v (Peers t)) (\<lambda>x. t\<lparr>Peers := x\<rparr>)
      else if tag = ''size'' then into (store_string v (Size t)) (\<lambda>x. t\<lparr>Size := x\<rparr>)
      else if tag = ''size_bytes'' then into (store_uint v (SizeBytes t)) (\<lambda>x. t\<lparr>SizeBytes := x\<rparr>)
      else if tag = ''date_uploaded_unix''
        then into (store_int64 v (T_DateUploadedUnix t)) (\<lambda>x. t\<lparr>T_DateUploadedUnix := x\<rparr>)
      else Ok (None, t))"

definition Torrent_field :: "string \<Rightarrow> json \<Rightarrow> TorrentAux \<Rightarrow> (error option \<times> TorrentAux) result" where
  "Torrent_field tag v a =
     (if tag = ''url'' then into (store_string v (T_URLRaw a)) (\<lambda>x. a\<lparr>T_URLRaw := x\<rparr>)
      else into_result (tor_field tag v (tor a)) (\<lambda>t. a\<lparr>tor := t\<rparr>))"

definition Torrent_UnmarshalJSON :: "NetURL \<Rightarrow> json \<Rightarrow> Torrent \<Rightarrow> Torrent result" where
  "Torrent_UnmarshalJSON lib data t =
     (case json_Unmarshal Torrent_tags Torrent_field ''Torrent'' data \<lparr>T_URLRaw = '''', tor = t\<rparr> of
        Failed err \<Rightarrow> Failed err
      | Panic \<Rightarrow> Panic
      | Ok aux \<Rightarrow>
          (case parseURL lib (T_URLRaw aux) of
             Inl err \<Rightarrow> Failed err
           | Inr u \<Rightarrow>
               (let t = (tor aux)\<lparr>T_URL := u\<rparr> in
                Ok (t\<lparr>T_DateUploaded := parseTime (T_DateUploadedUnix t)\<rparr>))))"

subsection \<open>Cast\<close>

record CastAux =
  SmallImageURL :: string
  cst :: Cast

definition Cast_tags :: "string list" where
  "Cast_tags = [''url_small_image'', ''name'', ''character_name'', ''imdb_code'']"

definition cst_field :: "string \<Rightarrow> json \<Rightarrow> Cast \<Rightarrow> (error option \<times> Cast) result" where
  "cst_field tag v c =
     (if tag = ''name'' then into (store_string v (Name c)) (\<lambda>x. c\<lparr>Name := x\<rparr>)
      else if tag = ''character_name''
        then into (store_string v (CharacterName c)) (\<lambda>x. c\<lparr>CharacterName := x\<rparr>)
      else if tag = ''imdb_code'' then into (store_string v (C_IMDBCode c)) (\<lambda>x. c\<lparr>C_IMDBCode := x\<rparr>)
      else Ok (None, c))"

definition Cast_field :: "string \<Rightarrow> json \<Rightarrow> CastAux \<Rightarrow> (error option \<times> CastAux) result" where
  "Cast_field tag v a =
     (if tag = ''url_small_image''
        then into (store_string v (SmallImageURL a)) (\<lambda>x. a\<lparr>SmallImageURL := x\<rparr>)
      else into_result (cst_field tag v (cst a)) (\<lambda>c. a\<lparr>cst := c\<rparr>))"

definition Cast_UnmarshalJSON :: "NetURL \<Rightarrow> json \<Rightarrow> Cast \<Rightarrow> Cast result" where
  "Cast_UnmarshalJSON lib data c =
     (case json_Unmarshal Cast_tags Cast_field ''Cast'' data \<lparr>SmallImageURL = '''', cst = c\<rparr> of
        Failed err \<Rightarrow> Failed err
      | Panic \<Rightarrow> Panic
      | Ok aux \<Rightarrow>
          (case parseURL lib (SmallImageURL aux) of
             Inl err \<Rightarrow> Failed err
           | Inr u \<Rightarrow> Ok ((cst aux)\<lparr>URLSmallImage := u\<rparr>)))"

subsection \<open>Movie\<close>

record MovieAux =
  URLRaw :: string
  BGImgURL :: string
  BGImgURLOrig :: string
  SCoverImg :: string
  MCoverImg :: string
  LCoverImg :: string
  mov :: Movie

definition Movie_tags :: "string list" where
  "Movie_tags =
     [''url'', ''background_image'', ''background_image_original'', ''small_cover_image'',
      ''medium_cover_image'', ''large_cover_image'',
      ''id'', ''imdb_code'', ''title'', ''title_english'', ''slug'', ''year'', ''rating'', ''runtime'',
      ''genres'', ''download_count'', ''like_count'', ''description_intro'', ''description_full'',
      ''yt_trailer_code'', ''language'', ''mpa_rating'', ''date_uploaded_unix'', ''torrents'', ''cast'']"

definition mov_field ::
  "NetURL \<Rightarrow> string \<Rightarrow> json \<Rightarrow> Movie \<Rightarrow> (error option \<times> Movie) result" where
  "mov_field lib tag v m =
     (if tag = ''id'' then into (store_uint v (ID m)) (\<lambda>x. m\<lparr>ID := x\<rparr>)
      else if tag = ''imdb_code'' then into (store_string v (IMDBCode m)) (\<lambda>x. m\<lparr>IMDBCode := x\<rparr>)
      else if tag = ''title'' then into (store_string v (Title m)) (\<lambda>x. m\<lparr>Title := x\<rparr>)
      else if tag = ''title_english''
        then into (store_string v (TitleEnglish m)) (\<lambda>x. m\<lparr>TitleEnglish := x\<rparr>)
      else if tag = ''slug'' then into (store_string v (Slug m)) (\<lambda>x. m\<lparr>Slug := x\<rparr>)
      else if tag = ''year'' then into (store_uint v (Year m)) (\<lambda>x. m\<lparr>Year := x\<rparr>)
      else if tag = ''rating'' then into (store_float32 v (Rating m)) (\<lambda>x. m\<lparr>Rating := x\<rparr>)
      else if tag = ''runtime'' then into (store_uint v (Runtime m)) (\<lambda>x. m\<lparr>Runtime := x\<rparr>)
      else if tag = ''genres'' then into (store_strings v (Genres m)) (\<lambda>x. m\<lparr>Genres := x\<rparr>)
      else if tag = ''download_count''
        then into (store_uint v (DownloadCount m)) (\<lambda>x. m\<lparr>DownloadCount := x\<rparr>)
      else if tag = ''like_count'' then into (store_uint v (LikeCound m)) (\<lambda>x. m\<lparr>LikeCound := x\<rparr>)
      else if tag = ''description_intro''
        then into (store_string v (DescriptionIntro m)) (\<lambda>x. m\<lparr>DescriptionIntro := x\<rparr>)
      else if tag = ''description_full''
        then into (store_string v (DescriptionFull m)) (\<lambda>x. m\<lparr>DescriptionFull := x\<rparr>)
      else if tag = ''yt_trailer_code''
        then into (store_string v (YouTubeTrailerCode m)) (\<lambda>x. m\<lparr>YouTubeTrailerCode := x\<rparr>)
      else if tag = ''language'' then into (store_string v (Language m)) (\<lambda>x. m\<lparr>Language := x\<rparr>)
      else if tag = ''mpa_rating'' then into (store_string v (MPARating m)) (\<lambda>x. m\<lparr>MPARating := x\<rparr>)
      else if tag = ''date_uploaded_unix''
        then into (store_int64 v (DateUploadedUnix m)) (\<lambda>x. m\<lparr>DateUploadedUnix := x\<rparr>)
      else if tag = ''torrents''
        then into_result (store_ptrs (Torrent_UnmarshalJSON lib) zero_Torrent ''[]*Torrent'' v (Torrents m))
               (\<lambda>x. m\<lparr>Torrents := x\<rparr>)
      else if tag = ''cast''
        then into_result (store_ptrs (Cast_UnmarshalJSON lib) zero_Cast ''[]*Cast'' v (Casts m))
               (\<lambda>x. m\<lparr>Casts := x\<rparr>)
      else Ok (None, m))"

definition Movie_field ::
  "NetURL \<Rightarrow> string \<Rightarrow> json \<Rightarrow> MovieAux \<Rightarrow> (error option \<times> MovieAux) result" where
  "Movie_field lib tag v a =
     (if tag = ''url'' then into (store_string v (URLRaw a)) (\<lambda>x. a\<lparr>URLRaw := x\<rparr>)
      else if tag = ''background_image'' then into (store_string v (BGImgURL a)) (\<lambda>x. a\<lparr>BGImgURL := x\<rparr>)
      else if tag = ''background_image_original''
        then into (store_string v (BGImgURLOrig a)) (\<lambda>x. a\<lparr>BGImgURLOrig := x\<rparr>)
      else if tag = ''small_cover_image'' then into (store_string v (SCoverImg a)) (\<lambda>x. a\<lparr>SCoverImg := x\<rparr>)
      else if tag = ''medium_cover_image'' then into (store_string v (MCoverImg a)) (\<lambda>x. a\<lparr>MCoverImg := x\<rparr>)
      else if tag = ''large_cover_image'' then into (store_string v (LCoverImg a)) (\<lambda>x. a\<lparr>LCoverImg := x\<rparr>)
      else into_result (mov_field lib tag v (mov a)) (\<lambda>m. a\<lparr>mov := m\<rparr>))"

text \<open>The loop over the raw URLs: each is parsed into its destination, the first error ends it.\<close>

fun parse_URLs ::
  "NetURL \<Rightarrow> ((URL option \<Rightarrow> Movie \<Rightarrow> Movie) \<times> string) list \<Rightarrow> Movie \<Rightarrow> error + Movie" where
  "parse_URLs lib [] m = Inr m"
| "parse_URLs lib ((dest, str) # us) m =
     (case parseURL lib str of
        Inl err \<Rightarrow> Inl err
      | Inr u \<Rightarrow> parse_URLs lib us (dest u m))"

text \<open>
  The loop over the torrents, which are the elements of the slice, writes the title
  through each pointer; a nil pointer in the slice is dereferenced, which panics.
\<close>

fun set_movieName :: "string \<Rightarrow> Torrent option list \<Rightarrow> Torrent option list result" where
  "set_movieName title [] = Ok []"
| "set_movieName title (None # ts) = Panic"
| "set_movieName title (Some t # ts) =
     (case set_movieName title ts of
        Ok ts' \<Rightarrow> Ok (Some (t\<lparr>movieName := title\<rparr>) # ts')
      | Failed err \<Rightarrow> Failed err
      | Panic \<Rightarrow> Panic)"

definition Movie_UnmarshalJSON :: "NetURL \<Rightarrow> json \<Rightarrow> Movie \<Rightarrow> Movie result" where
  "Movie_UnmarshalJSON lib data m =
     (case json_Unmarshal Movie_tags (Movie_field lib) ''Movie'' data
             \<lparr>URLRaw = '''', BGImgURL = '''', BGImgURLOrig = '''', SCoverImg = '''', MCoverImg = '''',
              LCoverImg = '''', mov = m\<rparr> of
        Failed err \<Rightarrow> Failed err
      | Panic \<Rightarrow> Panic
      | Ok aux \<Rightarrow>
          (let urls =
                 [(\<lambda>u m. m\<lparr>M_URL := u\<rparr>, URLRaw aux),
                  (\<lambda>u m. m\<lparr>BackgroundImage := u\<rparr>, BGImgURL aux),
                  (\<lambda>u m. m\<lparr>BackgroundImageOriginal := u\<rparr>, BGImgURLOrig aux),
                  (\<lambda>u m. m\<lparr>SmallCoverImage := u\<rparr>, SCoverImg aux),
                  (\<lambda>u m. m\<lparr>MediumCoverImage := u\<rparr>, MCoverImg aux),
                  (\<lambda>u m. m\<lparr>LargeCoverImage := u\<rparr>, LCoverImg aux)]
           in case parse_URLs lib urls (mov aux) of
                Inl err \<Rightarrow> Failed err
              | Inr m \<Rightarrow>
                  (let m = m\<lparr>DateUploaded := parseTime (DateUploadedUnix m)\<rparr> in
                   case set_movieName (Title m) (elems (Torrents m)) of
                     Ok ts \<Rightarrow> Ok (m\<lparr>Torrents := Slice ts (spare (Torrents m))\<rparr>)
                   | Failed err \<Rightarrow> Failed err
                   | Panic \<Rightarrow> Panic)))"

section \<open>Responses and the three lookups (\<open>ytsgo.go\<close>)\<close>

record status =
  S_Status :: string
  StatusMessage :: string

record movieDetailsData =
  D_Movie :: "Movie option"

record movieDetailsResponse =
  md_status :: status
  md_Data :: movieDetailsData

record Movies =
  MovieCount :: go_uint
  Page :: go_uint
  Limit :: go_uint
  MS_Movies :: "Movie option slice"

record listMoviesResponse =
  lm_status :: status
  lm_Data :: "Movies option"

record suggestionsData =
  SD_MovieCount :: go_uint
  SD_Movies :: "Movie option slice"

record suggestionsResponse =
  sg_status :: status
  sg_Data :: suggestionsData

definition zero_status :: status where
  "zero_status = \<lparr>S_Status = '''', StatusMessage = ''''\<rparr>"

definition zero_Movies :: Movies where
  "zero_Movies = \<lparr>MovieCount = 0, Page = 0, Limit = 0, MS_Movies = nil_slice\<rparr>"

text \<open>The two fields of the embedded \<open>status\<close> are fields of each response.\<close>

definition status_field :: "string \<Rightarrow> json \<Rightarrow> status \<Rightarrow> (error option \<times> status) result" where
  "status_field tag v s =
     (if tag = ''status'' then into (store_string v (S_Status s)) (\<lambda>x. s\<lparr>S_Status := x\<rparr>)
      else if tag = ''status_message''
        then into (store_string v (StatusMessage s)) (\<lambda>x. s\<lparr>StatusMessage := x\<rparr>)
      else Ok (None, s))"

definition movieDetailsData_field ::
  "NetURL \<Rightarrow> string \<Rightarrow> json \<Rightarrow> movieDetailsData \<Rightarrow> (error option \<times> movieDetailsData) result" where
  "movieDetailsData_field lib tag v d =
     (if tag = ''movie''
        then into_result (store_ptr (Movie_UnmarshalJSON lib) zero_Movie v (D_Movie d))
               (\<lambda>x. d\<lparr>D_Movie := x\<rparr>)
      else Ok (None, d))"

definition movieDetailsResponse_field ::
  "NetURL \<Rightarrow> string \<Rightarrow> json \<Rightarrow> movieDetailsResponse
     \<Rightarrow> (error option \<times> movieDetailsResponse) result" where
  "movieDetailsResponse_field lib tag v r =
     (if tag = ''data''
        then into_result
               (decode_struct [''movie''] (movieDetailsData_field lib) ''movieDetailsData'' v (md_Data r))
               (\<lambda>x. r\<lparr>md_Data := x\<rparr>)
      else into_result (status_field tag v (md_status r)) (\<lambda>x. r\<lparr>md_status := x\<rparr>))"

definition Movies_field ::
  "NetURL \<Rightarrow> string \<Rightarrow> json \<Rightarrow> Movies \<Rightarrow> (error option \<times> Movies) result" where
  "Movies_field lib tag v ms =
     (if tag = ''movie_count'' then into (store_uint v (MovieCount ms)) (\<lambda>x. ms\<lparr>MovieCount := x\<rparr>)
      else if tag = ''page_number'' then into (store_uint v (Page ms)) (\<lambda>x. ms\<lparr>Page := x\<rparr>)
      else if tag = ''limit'' then into (store_uint v (Limit ms)) (\<lambda>x. ms\<lparr>Limit := x\<rparr>)
      else if tag = ''movies''
        then into_result (store_ptrs (Movie_UnmarshalJSON lib) zero_Movie ''[]*Movie'' v (MS_Movies ms))
               (\<lambda>x. ms\<lparr>MS_Movies := x\<rparr>)
      else Ok (None, ms))"

definition Movies_tags :: "string list" where
  "Movies_tags = [''movie_count'', ''page_number'', ''limit'', ''movies'']"

text \<open>
  A pointer to a struct without a method of its own: \<open>null\<close> makes it nil, any other
  value is decoded into the struct pointed to, which is allocated when the pointer is nil.
\<close>

definition store_struct_ptr ::
  "(json \<Rightarrow> 's \<Rightarrow> (error option \<times> 's) result) \<Rightarrow> 's \<Rightarrow> json \<Rightarrow> 's option
     \<Rightarrow> (error option \<times> 's option) result" where
  "store_struct_ptr decode zero v cur =
     (case v of
        JNull \<Rightarrow> Ok (None, None)
      | _ \<Rightarrow> into_result (decode v (case cur of None \<Rightarrow> zero | Some s \<Rightarrow> s)) Some)"

definition listMoviesResponse_field ::
  "NetURL \<Rightarrow> string \<Rightarrow> json \<Rightarrow> listMoviesResponse
     \<Rightarrow> (error option \<times> listMoviesResponse) result" where
  "listMoviesResponse_field lib tag v r =
     (if tag = ''data''
        then into_result
               (store_struct_ptr (decode_struct Movies_tags (Movies_field lib) ''Movies'') zero_Movies v
                  (lm_Data r))
               (\<lambda>x. r\<lparr>lm_Data := x\<rparr>)
      else into_result (status_field tag v (lm_status r)) (\<lambda>x. r\<lparr>lm_status := x\<rparr>))"

definition suggestionsData_field ::
  "NetURL \<Rightarrow> string \<Rightarrow> json \<Rightarrow> suggestionsData \<Rightarrow> (error option \<times> suggestionsData) result" where
  "suggestionsData_field lib tag v d =
     (if tag = ''movie_count'' then into (store_uint v (SD_MovieCount d)) (\<lambda>x. d\<lparr>SD_MovieCount := x\<rparr>)
      else if tag = ''movies''
        then into_result (store_ptrs (Movie_UnmarshalJSON lib) zero_Movie ''[]*Movie'' v (SD_Movies d))
               (\<lambda>x. d\<lparr>SD_Movies := x\<rparr>)
      else Ok (None, d))"

definition suggestionsResponse_field ::
  "NetURL \<Rightarrow> string \<Rightarrow> json \<Rightarrow> suggestionsResponse
     \<Rightarrow> (error option \<times> suggestionsResponse) result" where
  "suggestionsResponse_field lib tag v r =
     (if tag = ''data''
        then into_result
               (decode_struct [''movie_count'', ''movies''] (suggestionsData_field lib) ''suggestionsData'' v
                  (sg_Data r))
               (\<lambda>x. r\<lparr>sg_Data := x\<rparr>)
      else into_result (status_field tag v (sg_status r)) (\<lambda>x. r\<lparr>sg_status := x\<rparr>))"

definition response_tags :: "string list" where
  "response_tags = [''status'', ''status_message'', ''data'']"

text \<open>\<open>json.NewDecoder(rsp.Body).Decode(&data)\<close>: the error of the body, or the decoding of its value.\<close>

definition Decode ::
  "(string \<Rightarrow> json \<Rightarrow> 's \<Rightarrow> (error option \<times> 's) result) \<Rightarrow> string \<Rightarrow> error + json \<Rightarrow> 's \<Rightarrow> 's result" where
  "Decode field ty body data =
     (case body of
        Inl err \<Rightarrow> Failed err
      | Inr v \<Rightarrow> json_Unmarshal response_tags field ty v data)"

definition status_error :: "Response \<Rightarrow> error" where
  "status_error rsp =
     ErrorString (''server returned code '' @ fmt_int (StatusCode rsp) @ '': '' @ Status rsp)"

definition api_error :: "status \<Rightarrow> error" where
  "api_error s =
     ErrorString (''api returned incorrect status '' @ S_Status s @ '': '' @ StatusMessage s)"

text \<open>What each lookup does with the response, once the request was answered.\<close>

definition Movie_response :: "NetURL \<Rightarrow> Response \<Rightarrow> Movie option result" where
  "Movie_response lib rsp =
     (if StatusCode rsp \<noteq> 200 then Failed (status_error rsp)
      else
        (case Decode (movieDetailsResponse_field lib) ''movieDetailsResponse'' (Body rsp)
                \<lparr>md_status = zero_status, md_Data = \<lparr>D_Movie = None\<rparr>\<rparr> of
           Failed err \<Rightarrow> Failed err
         | Panic \<Rightarrow> Panic
         | Ok data \<Rightarrow>
             if S_Status (md_status data) \<noteq> statusOK then Failed (api_error (md_status data))
             else Ok (D_Movie (md_Data data))))"

definition ListMovies_response :: "NetURL \<Rightarrow> Response \<Rightarrow> Movies option result" where
  "ListMovies_response lib rsp =
     (if StatusCode rsp \<noteq> 200 then Failed (status_error rsp)
      else
        (case Decode (listMoviesResponse_field lib) ''listMoviesResponse'' (Body rsp)
                \<lparr>lm_status = zero_status, lm_Data = None\<rparr> of
           Failed err \<Rightarrow> Failed err
         | Panic \<Rightarrow> Panic
         | Ok data \<Rightarrow>
             if S_Status (lm_status data) \<noteq> statusOK then Failed (api_error (lm_status data))
             else Ok (lm_Data data)))"

definition Suggestions_response :: "NetURL \<Rightarrow> Response \<Rightarrow> Movie option slice result" where
  "Suggestions_response lib rsp =
     (if StatusCode rsp \<noteq> 200 then Failed (status_error rsp)
      else
        (case Decode (suggestionsResponse_field lib) ''suggestionsResponse'' (Body rsp)
                \<lparr>sg_status = zero_status, sg_Data = \<lparr>SD_MovieCount = 0, SD_Movies = nil_slice\<rparr>\<rparr> of
           Failed err \<Rightarrow> Failed err
         | Panic \<Rightarrow> Panic
         | Ok data \<Rightarrow>
             if S_Status (sg_status data) \<noteq> statusOK then Failed (api_error (sg_status data))
             else Ok (SD_Movies (sg_Data data))))"

text \<open>The request of a lookup is built, sent, and its response handed on.\<close>

definition send :: "HTTP \<Rightarrow> Client \<Rightarrow> URL \<Rightarrow> Values \<Rightarrow> (Response \<Rightarrow> 'a result) \<Rightarrow> 'a result" where
  "send http c u params handle =
     (case newRequest http c u params of
        Inl err \<Rightarrow> Failed err
      | Inr req \<Rightarrow>
          (case Do http (httpClient_Timeout c) req of
             Inl err \<Rightarrow> Failed err
           | Inr rsp \<Rightarrow> handle rsp))"

definition Client_Movie ::
  "NetURL \<Rightarrow> HTTP \<Rightarrow> Client \<Rightarrow> go_int \<Rightarrow> MovieOption list \<Rightarrow> Movie option result" where
  "Client_Movie lib http c movieID opts =
     (case endpoint lib c ''movieURL'' of
        Ok u \<Rightarrow> send http c u (Movie_params u movieID opts) (Movie_response lib)
      | Failed err \<Rightarrow> Failed err
      | Panic \<Rightarrow> Panic)"

definition Client_ListMovies ::
  "NetURL \<Rightarrow> HTTP \<Rightarrow> Client \<Rightarrow> ListMoviesOption list \<Rightarrow> Movies option result" where
  "Client_ListMovies lib http c opts =
     (case endpoint lib c ''listMoviesURL'' of
        Ok u \<Rightarrow> send http c u (ListMovies_params u opts) (ListMovies_response lib)
      | Failed err \<Rightarrow> Failed err
      | Panic \<Rightarrow> Panic)"

definition Client_Suggestions ::
  "NetURL \<Rightarrow> HTTP \<Rightarrow> Client \<Rightarrow> go_int \<Rightarrow> Movie option slice result" where
  "Client_Suggestions lib http c movieID =
     (case endpoint lib c ''suggestionsURL'' of
        Ok u \<Rightarrow> send http c u (Suggestions_params u movieID) (Suggestions_response lib)
      | Failed err \<Rightarrow> Failed err
      | Panic \<Rightarrow> Panic)"

section \<open>The command line's text of a movie\<close>

definition TorrentsBySize_Less :: "Torrent \<Rightarrow> Torrent \<Rightarrow> bool" where
  "TorrentsBySize_Less a b \<longleftrightarrow> SizeBytes a < SizeBytes b"

definition TorrentsBySeeds_Less :: "Torrent \<Rightarrow> Torrent \<Rightarrow> bool" where
  "TorrentsBySeeds_Less a b \<longleftrightarrow> Seeds a < Seeds b"

text \<open>\<open>sort.Reverse\<close> swaps the arguments of \<open>Less\<close>.\<close>

definition Reverse :: "('a \<Rightarrow> 'a \<Rightarrow> bool) \<Rightarrow> 'a \<Rightarrow> 'a \<Rightarrow> bool" where
  "Reverse lt a b \<longleftrightarrow> lt b a"

text \<open>
  \<open>sort.Sort\<close> promises a sorted permutation and no stability, and its algorithm differs
  between releases of Go; the verb \<open>%q\<close> quotes by the Unicode tables. Both are parameters
  of \<open>movieStr\<close>. \<open>insertionSort\<close> is the library's sort of a short slice: each element
  moves towards the front while it is less than the one before it.
\<close>

fun insert_back :: "('a \<Rightarrow> 'a \<Rightarrow> bool) \<Rightarrow> 'a \<Rightarrow> 'a list \<Rightarrow> 'a list" where
  "insert_back lt x [] = [x]"
| "insert_back lt x (y # ys) = (if lt x y then y # insert_back lt x ys else x # y # ys)"

definition insertionSort :: "('a \<Rightarrow> 'a \<Rightarrow> bool) \<Rightarrow> 'a list \<Rightarrow> 'a list" where
  "insertionSort lt xs = rev (foldl (\<lambda>acc x. insert_back lt x acc) [] xs)"

definition newline :: string where
  "newline = [CHR 0x0A]"

definition tab :: string where
  "tab = [CHR 0x09]"

definition torrent_line :: "Torrent \<Rightarrow> string" where
  "torrent_line t =
     tab @ ''Seeds: '' @ fmt_uint (Seeds t) @ '' Peers: '' @ fmt_uint (Peers t) @ '' Size: '' @ Size t
       @ newline @ tab @ ''Magnet: '' @ Magnet t []"

text \<open>
  \<open>movieStr\<close> sorts the torrents of the movie in place, so the movie is returned with the
  text. A nil movie or a nil torrent is dereferenced.
\<close>

definition movieStr ::
  "(string \<Rightarrow> string) \<Rightarrow> ((Torrent \<Rightarrow> Torrent \<Rightarrow> bool) \<Rightarrow> Torrent list \<Rightarrow> Torrent list) \<Rightarrow> Movie option
     \<Rightarrow> (string \<times> Movie) result" where
  "movieStr quote sort_Sort mp =
     (case mp of
        None \<Rightarrow> Panic
      | Some m \<Rightarrow>
          (let ret = quote (Title m) @ '' ('' @ fmt_uint (Year m) @ '')'' @ newline in
           case those (elems (Torrents m)) of
             None \<Rightarrow> Panic
           | Some ts \<Rightarrow>
               (let ts = sort_Sort (Reverse TorrentsBySize_Less) ts;
                    trts = map torrent_line ts
                in Ok (ret @ strings_Join trts newline,
                       m\<lparr>Torrents := Slice (map Some ts) (spare (Torrents m))\<rparr>))))"

section \<open>Names for the values the theorems speak about\<close>

text \<open>
  An option is a Go closure. The fields of \<open>Client\<close> are not exported, so the options that
  act on a client are the values of the three constructors of this package; likewise the
  options of \<open>Movie\<close> are the values of its two constructors. The datatypes below name
  them, so that a theorem can speak of every list of options.
\<close>

datatype client_setting = SetBaseURL string | SetHTTPTimeout int64 | SetUserAgent string

fun option_of :: "client_setting \<Rightarrow> ClientOption" where
  "option_of (SetBaseURL url) = BaseURL url"
| "option_of (SetHTTPTimeout d) = HTTPTimeout d"
| "option_of (SetUserAgent ua) = UserAgent ua"



text \<open>The URL whose only part is a path, and the three endpoints as such URLs.\<close>

definition relative_URL :: "string \<Rightarrow> URL" where
  "relative_URL p = empty_URL\<lparr>Path := p\<rparr>"

definition endpoints :: "(string \<times> URL) list" where
  "endpoints =
     [(''movieURL'', relative_URL ''movie_details.json''),
      (''listMoviesURL'', relative_URL ''list_movies.json''),
      (''suggestionsURL'', relative_URL ''movie_suggestions.json'')]"

definition http_URL :: "string \<Rightarrow> string \<Rightarrow> string \<Rightarrow> URL" where
  "http_URL scheme host path = empty_URL\<lparr>Scheme := scheme, Host := host, Path := path\<rparr>"

text \<open>
  The text of a field of an object as a reader of the document sees it: the last string
  given under a key that matches the tag, \<open>cur\<close> when there is none. The decoders above do
  not use it; the theorems compare them with it.
\<close>

fun last_string :: "string \<Rightarrow> (string \<times> json) list \<Rightarrow> string \<Rightarrow> string" where
  "last_string tag [] cur = cur"
| "last_string tag ((k, v) # kvs) cur =
     last_string tag kvs
       (if foldName k = foldName tag then (case v of JString s \<Rightarrow> s | _ \<Rightarrow> cur) else cur)"

text \<open>The client of the repository's tests, built against a local test server.\<close>

definition test_client :: Client where
  "test_client =
     \<lparr>baseURLStr = ''http://127.0.0.1:35831'', baseURL = Some (http_URL ''http'' ''127.0.0.1:35831'' ''''),
      userAgent = ''test'', httpClient_Timeout = time_Second * 5, c_urls = endpoints\<rparr>"

text \<open>
  The request of a lookup as a reader of the exchange sees it: a \<open>GET\<close> of the URL with
  the given raw query, with the header \<open>Accept\<close> and, for a client with a user agent,
  \<open>User-Agent\<close>. And what a lookup returns that sends a request: the error of
  \<open>http.NewRequest\<close>, the error of \<open>Do\<close>, or what it makes of the response. The lookups
  above do not use them; the theorems compare the lookups with them.
\<close>

definition request :: "Client \<Rightarrow> URL \<Rightarrow> string \<Rightarrow> Request" where
  "request c u q =
     \<lparr>Method = ''GET'', R_URL = u\<lparr>RawQuery := q\<rparr>,
      Header = (''Accept'', ''application/json'')
                 # (if userAgent c = '''' then [] else [(''User-Agent'', userAgent c)])\<rparr>"

definition exchange :: "HTTP \<Rightarrow> Client \<Rightarrow> Request \<Rightarrow> (Response \<Rightarrow> 'a result) \<Rightarrow> 'a result" where
  "exchange http c r handle =
     (case NewRequest_error http (Method r) (R_URL r) of
        Some err \<Rightarrow> Failed err
      | None \<Rightarrow>
          (case Do http (httpClient_Timeout c) r of
             Inl err \<Rightarrow> Failed err
           | Inr rsp \<Rightarrow> handle rsp))"

text \<open>
  The server of the repository's tests accepts every request and answers each with the
  response it was set up with.
\<close>

definition test_server :: "Response \<Rightarrow> HTTP" where
  "test_server rsp = \<lparr>NewRequest_error = (\<lambda>method u. None), Do = (\<lambda>timeout req. Inr rsp)\<rparr>"

text \<open>
  The integer that the digits before the fraction of a number denote, with its sign, and
  the literals that \<open>strconv.ParseInt\<close> reads as an \<open>int64\<close>: no fraction, no exponent,
  and within the range.
\<close>

definition literal_value :: "number \<Rightarrow> int" where
  "literal_value n = (if negative n then - int (int_part n) else int (int_part n))"

definition int64_literal :: "number \<Rightarrow> bool" where
  "int64_literal n \<longleftrightarrow>
     frac_digits n = [] \<and> exponent n = None \<and> - (2 ^ 63) \<le> literal_value n \<and> literal_value n < 2 ^ 63"

(*PROPERTIES*)

section \<open>Properties of the query encoding and of magnet links\<close>


lemma add_trackers:
  "fold (\<lambda>tr v. Values_Add ''tr'' tr v) xs [(''dn'', [n]), (''tr'', ys)] =
     [(''dn'', [n]), (''tr'', ys @ xs)]"
  by (induction xs arbitrary: ys) (simp_all add: Values_Add_def values_of_def)

lemma add_trackers_first:
  assumes "xs \<noteq> []"
  shows "fold (\<lambda>tr v. Values_Add ''tr'' tr v) xs [(''dn'', [n])] = [(''dn'', [n]), (''tr'', xs)]"
proof (cases xs)
  case Nil
  with assms show ?thesis by simp
next
  case (Cons a list)
  have "Values_Add ''tr'' a [(''dn'', [n])] = [(''dn'', [n]), (''tr'', [a])]"
    by (simp add: Values_Add_def values_of_def)
  then show ?thesis using Cons add_trackers [of list n "[a]"] by simp
qed

lemma fold_encode_pair:
  "buf \<noteq> [] \<Longrightarrow>
   fold (encode_pair k) xs buf = buf @ concat (map (\<lambda>x. ''&'' @ k @ ''='' @ QueryEscape x) xs)"
  by (induction xs arbitrary: buf) (simp_all add: encode_pair_def)

lemma QueryEscape_dn: "QueryEscape ''dn'' = ''dn''"
  by code_simp

lemma QueryEscape_tr: "QueryEscape ''tr'' = ''tr''"
  by code_simp

lemma encode_dn_tr:
  "Values_Encode [(''dn'', [n]), (''tr'', xs)] =
     ''dn='' @ QueryEscape n @ concat (map (\<lambda>x. ''&tr='' @ QueryEscape x) xs)"
proof -
  have k: "sort [''dn'', ''tr''] = [''dn'', ''tr'']" by simp
  show ?thesis
    by (simp add: Values_Encode_def k QueryEscape_dn QueryEscape_tr values_of_def
        fold_encode_pair encode_pair_def)
qed

lemma shouldEscape_query:
  "shouldEscape c encodeQueryComponent \<longleftrightarrow> \<not> (is_alnum c \<or> c \<in> set ''-_.~'')"
  by (simp add: shouldEscape_def)

lemma QueryEscape_bytes:
  "QueryEscape s =
     concat (map (\<lambda>c. if is_alnum c \<or> c \<in> set ''-_.~'' then [c]
                       else if c = CHR '' '' then ''+''
                       else [CHR ''%'', upperhex ! (of_char c div 16), upperhex ! (of_char c mod 16)]) s)"
  unfolding QueryEscape_def escape_def
  by (rule arg_cong [where f = concat], rule map_cong [OF refl])
     (simp add: escape_byte_def shouldEscape_query)

text \<open>
  C1. With no tracker argument \<open>Magnet\<close> returns \<open>magnet:?xt=urn:btih:\<close>, the hash as it
  is, \<open>&dn=\<close> with the query-escaped movie name, and one \<open>&tr=\<close> parameter with the
  query-escaped tracker for each of the eight default trackers in their order; with a
  non-empty tracker list the same holds of exactly the given trackers in the order given.
  Query escaping leaves letters, digits and \<open>- _ . ~\<close> alone, writes a space as \<open>+\<close> and
  every other byte as \<open>%\<close> and two upper-case hexadecimal digits.
\<close>

theorem Magnet_format:
  "Magnet t trackers =
     ''magnet:?xt=urn:btih:'' @ Hash t @ ''&dn='' @ QueryEscape (movieName t) @
       concat (map (\<lambda>tr. ''&tr='' @ QueryEscape tr)
                 (if trackers = [] then DefaultTackers else trackers))
   \<and> length DefaultTackers = 8
   \<and> (\<forall>s. QueryEscape s =
         concat (map (\<lambda>c. if is_alnum c \<or> c \<in> set ''-_.~'' then [c]
                           else if c = CHR '' '' then ''+''
                           else [CHR ''%'', upperhex ! (of_char c div 16),
                                 upperhex ! (of_char c mod 16)]) s))"
proof -
  have d: "DefaultTackers \<noteq> []" by (simp add: DefaultTackers_def)
  have "Magnet t trackers =
     ''magnet:?xt=urn:btih:'' @ Hash t @ ''&dn='' @ QueryEscape (movieName t) @
       concat (map (\<lambda>tr. ''&tr='' @ QueryEscape tr)
                 (if trackers = [] then DefaultTackers else trackers))"
    by (cases "trackers = []")
       (simp_all add: Magnet_def Values_Set_def add_trackers_first d encode_dn_tr)
  moreover have "length DefaultTackers = 8" by (simp add: DefaultTackers_def)
  ultimately show ?thesis using QueryEscape_bytes by blast
qed

text \<open>The two cases of the repository's own test of \<open>Magnet\<close>.\<close>

theorem Magnet_format_witness:
  "Magnet testTorrent [''udp://tracker1.com:1234'', ''http://tracker2.com:5678''] =
     ''magnet:?xt=urn:btih:HASH123&dn=Name+of+cool+movie&tr=udp%3A%2F%2Ftracker1.com%3A1234&tr=http%3A%2F%2Ftracker2.com%3A5678''
   \<and> Magnet testTorrent [] =
     ''magnet:?xt=urn:btih:HASH123&dn=Name+of+cool+movie&tr=udp%3A%2F%2Fopen.demonii.com%3A1337%2Fannounce&tr=udp%3A%2F%2Ftracker.openbittorrent.com%3A80&tr=udp%3A%2F%2Ftracker.coppersurfer.tk%3A6969&tr=udp%3A%2F%2Fglotorrents.pw%3A6969%2Fannounce&tr=udp%3A%2F%2Ftracker.opentrackr.org%3A1337%2Fannounce&tr=udp%3A%2F%2Ftorrent.gresille.org%3A80%2Fannounce&tr=udp%3A%2F%2Fp4p.arenabg.com%3A1337&tr=udp%3A%2F%2Ftracker.leechers-paradise.org%3A6969''"
proof -
  have a: "QueryEscape ''Name of cool movie'' = ''Name+of+cool+movie''" by code_simp
  have b: "QueryEscape ''udp://tracker1.com:1234'' = ''udp%3A%2F%2Ftracker1.com%3A1234''"
    "QueryEscape ''http://tracker2.com:5678'' = ''http%3A%2F%2Ftracker2.com%3A5678''"
    by code_simp+
  have c: "concat (map (\<lambda>tr. ''&tr='' @ QueryEscape tr) DefaultTackers) =
     ''&tr=udp%3A%2F%2Fopen.demonii.com%3A1337%2Fannounce&tr=udp%3A%2F%2Ftracker.openbittorrent.com%3A80&tr=udp%3A%2F%2Ftracker.coppersurfer.tk%3A6969&tr=udp%3A%2F%2Fglotorrents.pw%3A6969%2Fannounce&tr=udp%3A%2F%2Ftracker.opentrackr.org%3A1337%2Fannounce&tr=udp%3A%2F%2Ftorrent.gresille.org%3A80%2Fannounce&tr=udp%3A%2F%2Fp4p.arenabg.com%3A1337&tr=udp%3A%2F%2Ftracker.leechers-paradise.org%3A6969''"
    by code_simp
  show ?thesis
    using Magnet_format [of testTorrent "[''udp://tracker1.com:1234'', ''http://tracker2.com:5678'']",
          THEN conjunct1]
      Magnet_format [of testTorrent "[]", THEN conjunct1] c
    by (simp add: testTorrent_def a b)
qed

section \<open>Properties of the formatting and of the query options\<close>

lemma decimal_small: "n < 10 \<Longrightarrow> decimal n = [digit n]"
  by (simp add: decimal.simps)

lemma fmt_uint_50: "fmt_uint 50 = ''50''"
  by (simp add: fmt_uint_def decimal.simps digit_def)

lemma fmt_uint_9: "fmt_uint 9 = ''9''"
  by (simp add: fmt_uint_def decimal.simps digit_def)

lemma map_of_Values_Set: "map_of (Values_Set k x v) = (map_of v)(k \<mapsto> [x])"
  by (simp add: Values_Set_def update_conv')

lemma map_of_Values_Add: "map_of (Values_Add k x v) = (map_of v)(k \<mapsto> values_of v k @ [x])"
  by (simp add: Values_Add_def update_conv')

lemma digit_value:
  assumes "n < 10"
  shows "of_char (digit n) - (48::nat) = n"
proof -
  have m: "map (\<lambda>n. of_char (digit n) - (48::nat)) [0..<10] = [0..<10]"
    by code_simp
  from assms have "map (\<lambda>n. of_char (digit n) - (48::nat)) [0..<10] ! n = of_char (digit n) - 48"
    by (subst nth_map) simp_all
  with m assms show ?thesis by simp
qed

lemma digits_value_decimal: "digits_value (decimal n) = n"
proof (induction n rule: decimal.induct)
  case (1 n)
  show ?case
  proof (cases "n < 10")
    case True
    then show ?thesis by (simp add: decimal.simps [of n] digits_value_def digit_value)
  next
    case False
    with 1 have "digits_value (decimal (n div 10)) = n div 10" by simp
    with False show ?thesis
      by (simp add: decimal.simps [of n] digits_value_def digit_value)
  qed
qed

text \<open>
  C2. \<open>LMLimit x\<close> sets the parameter \<open>limit\<close> to the one value \<open>50\<close> when \<open>x > 50\<close> and
  to the decimal text of \<open>x\<close> otherwise, \<open>LMMinimumRating r\<close> sets \<open>minimum_rating\<close> to \<open>9\<close>
  when \<open>r > 9\<close> and to the decimal text of \<open>r\<close> otherwise, and every other parameter of
  the query is as it was.
\<close>

theorem LM_clamp:
  "map_of (LMLimit x v) = (map_of v)(''limit'' \<mapsto> [if 50 < x then ''50'' else fmt_uint x])
   \<and> map_of (LMMinimumRating r v) =
       (map_of v)(''minimum_rating'' \<mapsto> [if 9 < r then ''9'' else fmt_uint r])"
  by (simp add: LMLimit_def LMMinimumRating_def map_of_Values_Set fmt_uint_50 fmt_uint_9 Let_def)

theorem LM_clamp_witness:
  "map_of (LMLimit 450 [(''page'', [''12''])]) = [''page'' \<mapsto> [''12''], ''limit'' \<mapsto> [''50'']]
   \<and> map_of (LMLimit 45 []) = [''limit'' \<mapsto> [''45'']]
   \<and> map_of (LMMinimumRating 70 [(''page'', [''12''])]) = [''page'' \<mapsto> [''12''], ''minimum_rating'' \<mapsto> [''9'']]
   \<and> map_of (LMMinimumRating 7 []) = [''minimum_rating'' \<mapsto> [''7'']]"
proof -
  have a: "fmt_uint 45 = ''45''" "fmt_uint 7 = ''7''"
    by (simp_all add: fmt_uint_def decimal.simps digit_def)
  show ?thesis
    using LM_clamp [of 450 "[(''page'', [''12''])]" 70] LM_clamp [of 45 "[]" 7]
    by (simp add: a)
qed

section \<open>Properties of the construction of a client\<close>

lemma parse_movie_details:
  "url_Parse lib ''movie_details.json'' = Inr (relative_URL ''movie_details.json'')"
  by code_simp

lemma parse_list_movies: "url_Parse lib ''list_movies.json'' = Inr (relative_URL ''list_movies.json'')"
  by code_simp

lemma parse_movie_suggestions:
  "url_Parse lib ''movie_suggestions.json'' = Inr (relative_URL ''movie_suggestions.json'')"
  by code_simp

lemma parse_urls_urls:
  "parse_urls lib urls c = Inr (c\<lparr>c_urls :=
      AList.update ''suggestionsURL'' (relative_URL ''movie_suggestions.json'')
        (AList.update ''listMoviesURL'' (relative_URL ''list_movies.json'')
          (AList.update ''movieURL'' (relative_URL ''movie_details.json'') (c_urls c)))\<rparr>)"
  by (simp add: urls_def parse_movie_details parse_list_movies parse_movie_suggestions)

lemma fold_options:
  "fold (\<lambda>opt c. opt c) (map option_of xs) c =
     \<lparr>baseURLStr = last (baseURLStr c # [u. SetBaseURL u \<leftarrow> xs]),
      baseURL = baseURL c,
      userAgent = last (userAgent c # [ua. SetUserAgent ua \<leftarrow> xs]),
      httpClient_Timeout = last (httpClient_Timeout c # [d. SetHTTPTimeout d \<leftarrow> xs]),
      c_urls = c_urls c\<rparr>"
proof (induction xs arbitrary: c)
  case Nil
  then show ?case by simp
next
  case (Cons x xs)
  show ?case
    by (cases x) (simp_all add: Cons.IH BaseURL_def HTTPTimeout_def UserAgent_def)
qed

lemma New_globals: "snd (New lib g opts) = g"
  by (simp add: New_def Let_def split: sum.splits)

lemma New_parses_endpoints:
  assumes "G_urls g = urls"
  shows "fst (New lib g (map option_of xs)) =
     (case url_Parse lib (last (DefaultBaseURL # [u. SetBaseURL u \<leftarrow> xs])) of
        Inl err \<Rightarrow> Inl err
      | Inr b \<Rightarrow>
          Inr \<lparr>baseURLStr = last (DefaultBaseURL # [u. SetBaseURL u \<leftarrow> xs]),
               baseURL = Some b,
               userAgent = last ('''' # [ua. SetUserAgent ua \<leftarrow> xs]),
               httpClient_Timeout = last (G_DefaultTimeout g # [d. SetHTTPTimeout d \<leftarrow> xs]),
               c_urls = endpoints\<rparr>)"
proof -
  let ?base = "last (DefaultBaseURL # [u. SetBaseURL u \<leftarrow> xs])"
  let ?c = "\<lparr>baseURLStr = ?base, baseURL = None,
             userAgent = last ('''' # [ua. SetUserAgent ua \<leftarrow> xs]),
             httpClient_Timeout = last (G_DefaultTimeout g # [d. SetHTTPTimeout d \<leftarrow> xs]),
             c_urls = []\<rparr>"
  have f: "fold (\<lambda>opt c. opt c) (map option_of xs)
             \<lparr>baseURLStr = DefaultBaseURL, baseURL = None, userAgent = '''',
              httpClient_Timeout = G_DefaultTimeout g, c_urls = []\<rparr> = ?c"
    unfolding fold_options by (simp del: last.simps)
  have n: "fst (New lib g (map option_of xs)) =
     (case url_Parse lib ?base of
        Inl err \<Rightarrow> Inl err
      | Inr b \<Rightarrow> parse_urls lib urls (?c\<lparr>baseURL := Some b\<rparr>))"
    unfolding New_def Let_def f assms by (simp del: last.simps split: sum.splits)
  show ?thesis
    unfolding n parse_urls_urls by (simp del: last.simps add: endpoints_def split: sum.splits)
qed

lemma New_endpoint:
  assumes "G_urls g = urls" and "fst (New lib g (map option_of xs)) = Inr c"
  shows "\<exists>b. baseURL c = Some b \<and> url_Parse lib (baseURLStr c) = Inr b
          \<and> endpoint lib c ''movieURL'' = Ok (ResolveReference lib b (relative_URL ''movie_details.json''))
          \<and> endpoint lib c ''listMoviesURL'' = Ok (ResolveReference lib b (relative_URL ''list_movies.json''))
          \<and> endpoint lib c ''suggestionsURL''
               = Ok (ResolveReference lib b (relative_URL ''movie_suggestions.json''))"
  using assms(2) unfolding New_parses_endpoints [OF assms(1)]
  by (auto simp: endpoint_def endpoints_def split: sum.splits)

text \<open>The request that \<open>newRequest\<close> builds and that \<open>Do\<close> is given.\<close>

lemma send_exchange:
  "send http c u params handle = exchange http c (request c u (Values_Encode params)) handle"
  by (simp add: send_def newRequest_def exchange_def request_def Let_def split: option.splits)

lemma parse_DefaultBaseURL: "url_Parse lib DefaultBaseURL = Inr (http_URL ''https'' ''yts.lt'' ''/api/v2/'')"
  by code_simp

lemma resolve_default:
  "ResolveReference lib (http_URL ''https'' ''yts.lt'' ''/api/v2/'') (relative_URL ''movie_details.json'')
     = http_URL ''https'' ''yts.lt'' ''/api/v2/movie_details.json''"
  by code_simp

lemma parse_test_server:
  "url_Parse lib ''http://127.0.0.1:35831'' = Inr (http_URL ''http'' ''127.0.0.1:35831'' '''')"
  by code_simp

lemma resolve_test_server:
  "ResolveReference lib (http_URL ''http'' ''127.0.0.1:35831'' '''') (relative_URL ''movie_details.json'')
     = http_URL ''http'' ''127.0.0.1:35831'' ''/movie_details.json''"
  "ResolveReference lib (http_URL ''http'' ''127.0.0.1:35831'' '''') (relative_URL ''list_movies.json'')
     = http_URL ''http'' ''127.0.0.1:35831'' ''/list_movies.json''"
  "ResolveReference lib (http_URL ''http'' ''127.0.0.1:35831'' '''') (relative_URL ''movie_suggestions.json'')
     = http_URL ''http'' ''127.0.0.1:35831'' ''/movie_suggestions.json''"
  by code_simp+


text \<open>
  C7, as the code has it. \<open>New\<close> leaves the variables of the package as they are. It
  applies the options in order, so the last base URL, timeout and user agent given count,
  and the defaults where none is given. When the base URL does not parse, \<open>New\<close> returns
  that error and no client. Otherwise it returns a client that holds the parsed base URL
  and the three endpoint paths, parsed but not resolved. On such a client no lookup fails
  for want of a part: each one resolves its path against the base URL when it is called,
  and sends the request for the resolved URL.
\<close>

theorem New_parses_lookups_resolve:
  "snd (New lib g opts) = g
   \<and> (G_urls g = urls \<longrightarrow>
        fst (New lib g (map option_of xs)) =
          (case url_Parse lib (last (DefaultBaseURL # [u. SetBaseURL u \<leftarrow> xs])) of
             Inl err \<Rightarrow> Inl err
           | Inr b \<Rightarrow>
               Inr \<lparr>baseURLStr = last (DefaultBaseURL # [u. SetBaseURL u \<leftarrow> xs]),
                    baseURL = Some b,
                    userAgent = last ('''' # [ua. SetUserAgent ua \<leftarrow> xs]),
                    httpClient_Timeout = last (G_DefaultTimeout g # [d. SetHTTPTimeout d \<leftarrow> xs]),
                    c_urls = endpoints\<rparr>))
   \<and> (G_urls g = urls \<and> fst (New lib g (map option_of xs)) = Inr c \<longrightarrow>
        (\<exists>b. baseURL c = Some b \<and> url_Parse lib (baseURLStr c) = Inr b
           \<and> Client_Movie lib http c movieID mopts =
               exchange http c
                 (request c (ResolveReference lib b (relative_URL ''movie_details.json''))
                    (Values_Encode
                       (Movie_params (ResolveReference lib b (relative_URL ''movie_details.json''))
                          movieID mopts)))
                 (Movie_response lib)
           \<and> Client_ListMovies lib http c lopts =
               exchange http c
                 (request c (ResolveReference lib b (relative_URL ''list_movies.json''))
                    (Values_Encode
                       (ListMovies_params (ResolveReference lib b (relative_URL ''list_movies.json''))
                          lopts)))
                 (ListMovies_response lib)
           \<and> Client_Suggestions lib http c movieID =
               exchange http c
                 (request c (ResolveReference lib b (relative_URL ''movie_suggestions.json''))
                    (Values_Encode
                       (Suggestions_params
                          (ResolveReference lib b (relative_URL ''movie_suggestions.json'')) movieID)))
                 (Suggestions_response lib)))"
proof (intro conjI impI)
  show "snd (New lib g opts) = g" by (rule New_globals)
next
  assume "G_urls g = urls"
  then show "fst (New lib g (map option_of xs)) =
          (case url_Parse lib (last (DefaultBaseURL # [u. SetBaseURL u \<leftarrow> xs])) of
             Inl err \<Rightarrow> Inl err
           | Inr b \<Rightarrow>
               Inr \<lparr>baseURLStr = last (DefaultBaseURL # [u. SetBaseURL u \<leftarrow> xs]),
                    baseURL = Some b,
                    userAgent = last ('''' # [ua. SetUserAgent ua \<leftarrow> xs]),
                    httpClient_Timeout = last (G_DefaultTimeout g # [d. SetHTTPTimeout d \<leftarrow> xs]),
                    c_urls = endpoints\<rparr>)"
    by (rule New_parses_endpoints)
next
  assume a: "G_urls g = urls \<and> fst (New lib g (map option_of xs)) = Inr c"
  then obtain b where b: "baseURL c = Some b" "url_Parse lib (baseURLStr c) = Inr b"
    and e: "endpoint lib c ''movieURL'' = Ok (ResolveReference lib b (relative_URL ''movie_details.json''))"
      "endpoint lib c ''listMoviesURL'' = Ok (ResolveReference lib b (relative_URL ''list_movies.json''))"
      "endpoint lib c ''suggestionsURL''
         = Ok (ResolveReference lib b (relative_URL ''movie_suggestions.json''))"
    using New_endpoint [of g lib xs c] by blast
  show "\<exists>b. baseURL c = Some b \<and> url_Parse lib (baseURLStr c) = Inr b
           \<and> Client_Movie lib http c movieID mopts =
               exchange http c
                 (request c (ResolveReference lib b (relative_URL ''movie_details.json''))
                    (Values_Encode
                       (Movie_params (ResolveReference lib b (relative_URL ''movie_details.json''))
                          movieID mopts)))
                 (Movie_response lib)
           \<and> Client_ListMovies lib http c lopts =
               exchange http c
                 (request c (ResolveReference lib b (relative_URL ''list_movies.json''))
                    (Values_Encode
                       (ListMovies_params (ResolveReference lib b (relative_URL ''list_movies.json''))
                          lopts)))
                 (ListMovies_response lib)
           \<and> Client_Suggestions lib http c movieID =
               exchange http c
                 (request c (ResolveReference lib b (relative_URL ''movie_suggestions.json''))
                    (Values_Encode
                       (Suggestions_params
                          (ResolveReference lib b (relative_URL ''movie_suggestions.json'')) movieID)))
                 (Suggestions_response lib)"
  proof (intro exI conjI)
    show "baseURL c = Some b" by (rule b)
    show "url_Parse lib (baseURLStr c) = Inr b" by (rule b)
  qed (simp_all add: Client_Movie_def Client_ListMovies_def Client_Suggestions_def e send_exchange)
qed

lemma fmt_int_1: "fmt_int 1 = ''1''"
  by (simp add: fmt_int_def decimal.simps digit_def)

lemma URL_Query_empty: "RawQuery u = '''' \<Longrightarrow> URL_Query u = []"
  by (simp add: URL_Query_def parseQuery_piece_def Contains_def HasPrefix_def)

lemma RawQuery_http_URL: "RawQuery (http_URL s h p) = ''''"
  by (simp add: http_URL_def empty_URL_def)

lemma Encode_movie_id_1: "Values_Encode [(''movie_id'', [''1''])] = ''movie_id=1''"
  by code_simp

lemma Encode_empty: "Values_Encode [] = ''''"
  by code_simp

theorem New_parses_lookups_resolve_witness:
  "\<forall>lib http.
     snd (New lib declared
            [BaseURL ''http://127.0.0.1:35831'', HTTPTimeout (time_Second * 5), UserAgent ''test''])
       = declared
   \<and> fst (New lib declared
            [BaseURL ''http://127.0.0.1:35831'', HTTPTimeout (time_Second * 5), UserAgent ''test''])
       = Inr test_client
   \<and> Client_Movie lib http test_client 1 [] =
        exchange http test_client
          (request test_client (http_URL ''http'' ''127.0.0.1:35831'' ''/movie_details.json'') ''movie_id=1'')
          (Movie_response lib)
   \<and> Client_ListMovies lib http test_client [] =
        exchange http test_client
          (request test_client (http_URL ''http'' ''127.0.0.1:35831'' ''/list_movies.json'') '''')
          (ListMovies_response lib)
   \<and> Client_Suggestions lib http test_client 1 =
        exchange http test_client
          (request test_client (http_URL ''http'' ''127.0.0.1:35831'' ''/movie_suggestions.json'')
             ''movie_id=1'')
          (Suggestions_response lib)
   \<and> fst (New lib declared [BaseURL '':''])
       = Inl (URLError ''parse'' '':'' (ErrorString ''missing protocol scheme''))"
proof (intro allI)
  fix lib http
  let ?xs = "[SetBaseURL ''http://127.0.0.1:35831'', SetHTTPTimeout (time_Second * 5),
              SetUserAgent ''test'']"
  have g: "G_urls declared = urls" by (simp add: declared_def)
  have bad: "url_Parse lib '':'' = Inl (URLError ''parse'' '':'' (ErrorString ''missing protocol scheme''))"
    by code_simp
  note T = New_parses_lookups_resolve [of lib declared _ ?xs test_client http 1 "[]" "[]"]
  have s: "snd (New lib declared (map option_of ?xs)) = declared"
    using New_parses_lookups_resolve [of lib declared "map option_of ?xs", THEN conjunct1] .
  have n: "fst (New lib declared (map option_of ?xs)) = Inr test_client"
    using T [THEN conjunct2, THEN conjunct1] g
    by (simp add: parse_test_server test_client_def declared_def DefaultTimeout_def)
  have b: "fst (New lib declared [BaseURL '':''])
             = Inl (URLError ''parse'' '':'' (ErrorString ''missing protocol scheme''))"
    using New_parses_lookups_resolve [of lib declared _ "[SetBaseURL '':'']", THEN conjunct2, THEN conjunct1] g
    by (simp add: bad)
  have e: "baseURL test_client = Some (http_URL ''http'' ''127.0.0.1:35831'' '''')"
    by (simp add: test_client_def)
  have q: "Values_Encode (Movie_params (http_URL ''http'' ''127.0.0.1:35831'' ''/movie_details.json'') 1 [])
             = ''movie_id=1''"
    "Values_Encode (ListMovies_params (http_URL ''http'' ''127.0.0.1:35831'' ''/list_movies.json'') []) = ''''"
    "Values_Encode (Suggestions_params (http_URL ''http'' ''127.0.0.1:35831'' ''/movie_suggestions.json'') 1)
             = ''movie_id=1''"
    by (simp_all add: Movie_params_def ListMovies_params_def Suggestions_params_def URL_Query_empty
        RawQuery_http_URL fmt_int_1 Values_Set_def Encode_movie_id_1 Encode_empty)
  from T [THEN conjunct2, THEN conjunct2] g n e
  have "Client_Movie lib http test_client 1 [] =
        exchange http test_client
          (request test_client (http_URL ''http'' ''127.0.0.1:35831'' ''/movie_details.json'') ''movie_id=1'')
          (Movie_response lib)
   \<and> Client_ListMovies lib http test_client [] =
        exchange http test_client
          (request test_client (http_URL ''http'' ''127.0.0.1:35831'' ''/list_movies.json'') '''')
          (ListMovies_response lib)
   \<and> Client_Suggestions lib http test_client 1 =
        exchange http test_client
          (request test_client (http_URL ''http'' ''127.0.0.1:35831'' ''/movie_suggestions.json'')
             ''movie_id=1'')
          (Suggestions_response lib)"
    by (simp add: resolve_test_server q)
  with s n b show "snd (New lib declared
            [BaseURL ''http://127.0.0.1:35831'', HTTPTimeout (time_Second * 5), UserAgent ''test''])
       = declared
   \<and> fst (New lib declared
            [BaseURL ''http://127.0.0.1:35831'', HTTPTimeout (time_Second * 5), UserAgent ''test''])
       = Inr test_client
   \<and> Client_Movie lib http test_client 1 [] =
        exchange http test_client
          (request test_client (http_URL ''http'' ''127.0.0.1:35831'' ''/movie_details.json'') ''movie_id=1'')
          (Movie_response lib)
   \<and> Client_ListMovies lib http test_client [] =
        exchange http test_client
          (request test_client (http_URL ''http'' ''127.0.0.1:35831'' ''/list_movies.json'') '''')
          (ListMovies_response lib)
   \<and> Client_Suggestions lib http test_client 1 =
        exchange http test_client
          (request test_client (http_URL ''http'' ''127.0.0.1:35831'' ''/movie_suggestions.json'')
             ''movie_id=1'')
          (Suggestions_response lib)
   \<and> fst (New lib declared [BaseURL '':''])
       = Inl (URLError ''parse'' '':'' (ErrorString ''missing protocol scheme''))"
    by simp
qed

text \<open>
  The client that \<open>New\<close> builds from no options stores the path \<open>movie_details.json\<close> as a
  relative URL. Resolved against the base URL it is \<open>https://yts.lt/api/v2/movie_details.json\<close>,
  which is not what the client stores.
\<close>

theorem New_stores_unresolved_paths:
  "\<forall>lib.
     fst (New lib declared []) =
       Inr \<lparr>baseURLStr = DefaultBaseURL, baseURL = Some (http_URL ''https'' ''yts.lt'' ''/api/v2/''),
            userAgent = '''', httpClient_Timeout = DefaultTimeout, c_urls = endpoints\<rparr>
   \<and> map_of endpoints ''movieURL'' = Some (relative_URL ''movie_details.json'')
   \<and> ResolveReference lib (http_URL ''https'' ''yts.lt'' ''/api/v2/'') (relative_URL ''movie_details.json'')
        = http_URL ''https'' ''yts.lt'' ''/api/v2/movie_details.json''
   \<and> relative_URL ''movie_details.json'' \<noteq> http_URL ''https'' ''yts.lt'' ''/api/v2/movie_details.json''"
proof (intro allI)
  fix lib
  have g: "G_urls declared = urls" by (simp add: declared_def)
  have a: "fst (New lib declared []) =
     Inr \<lparr>baseURLStr = DefaultBaseURL, baseURL = Some (http_URL ''https'' ''yts.lt'' ''/api/v2/''),
          userAgent = [], httpClient_Timeout = DefaultTimeout, c_urls = endpoints\<rparr>"
    using New_parses_endpoints [OF g, of lib "[]"] by (simp add: parse_DefaultBaseURL declared_def)
  have b: "map_of endpoints ''movieURL'' = Some (relative_URL ''movie_details.json'')"
    by (simp add: endpoints_def)
  have c: "relative_URL ''movie_details.json'' \<noteq> http_URL ''https'' ''yts.lt'' ''/api/v2/movie_details.json''"
    by (simp add: relative_URL_def http_URL_def empty_URL_def)
  show "fst (New lib declared []) =
       Inr \<lparr>baseURLStr = DefaultBaseURL, baseURL = Some (http_URL ''https'' ''yts.lt'' ''/api/v2/''),
            userAgent = '''', httpClient_Timeout = DefaultTimeout, c_urls = endpoints\<rparr>
   \<and> map_of endpoints ''movieURL'' = Some (relative_URL ''movie_details.json'')
   \<and> ResolveReference lib (http_URL ''https'' ''yts.lt'' ''/api/v2/'') (relative_URL ''movie_details.json'')
        = http_URL ''https'' ''yts.lt'' ''/api/v2/movie_details.json''
   \<and> relative_URL ''movie_details.json'' \<noteq> http_URL ''https'' ''yts.lt'' ''/api/v2/movie_details.json''"
    by (intro conjI a b c resolve_default)
qed

section \<open>Properties of the queries of the lookups\<close>






















section \<open>Properties of the decoder\<close>

lemma first_error_Some [simp]: "first_error (Some e) x = Some e"
  by (simp add: first_error_def)

lemma first_error_None [simp]: "first_error None x = x"
  by (simp add: first_error_def)

lemma decode_entries_saved:
  "decode_entries tags field kvs (Some e, s) \<noteq> Ok (None, s')"
proof (induction kvs arbitrary: s)
  case Nil
  then show ?case by simp
next
  case (Cons kv kvs)
  obtain k v where kv: "kv = (k, v)" by (cases kv)
  show ?case
    using Cons.IH by (simp add: kv split: option.splits result.splits)
qed

lemma decode_entries_append:
  "decode_entries tags field (xs @ ys) st =
     (case decode_entries tags field xs st of
        Ok st' \<Rightarrow> decode_entries tags field ys st'
      | Failed err \<Rightarrow> Failed err
      | Panic \<Rightarrow> Panic)"
proof (induction xs arbitrary: st)
  case Nil
  then show ?case by simp
next
  case (Cons kv xs)
  obtain k v where kv: "kv = (k, v)" by (cases kv)
  obtain sv s where st: "st = (sv, s)" by (cases st)
  show ?case
    by (simp add: kv st Cons.IH split: option.splits result.splits)
qed

text \<open>An entry whose field always reports a type error makes the whole call fail.\<close>

lemma decode_entries_type_error:
  assumes "(k, v) \<in> set kvs" and "field_of tags k = Some tag"
    and "\<And>s. \<exists>err s'. field tag v s = Ok (Some err, s')"
  shows "decode_entries tags field kvs st \<noteq> Ok (None, s')"
  using assms(1)
proof (induction kvs arbitrary: st)
  case Nil
  then show ?case by simp
next
  case (Cons kv kvs)
  obtain k' v' where kv: "kv = (k', v')" by (cases kv)
  obtain sv s where st: "st = (sv, s)" by (cases st)
  show ?case
  proof (cases "kv = (k, v)")
    case True
    from assms(3) [of s] obtain err s1 where f: "field tag v s = Ok (Some err, s1)" by blast
    have "first_error sv (Some err) \<noteq> None" by (cases sv) simp_all
    then obtain e where "first_error sv (Some err) = Some e" by blast
    with True f assms(2) show ?thesis
      by (simp add: st decode_entries_saved)
  next
    case False
    with Cons.prems have "(k, v) \<in> set kvs" by simp
    from Cons.IH [OF this] show ?thesis
      by (simp add: kv st split: option.splits result.splits)
  qed
qed

text \<open>A part of the struct that the fields of the entries leave alone is left alone.\<close>

lemma decode_entries_preserves:
  assumes "\<And>k v tag s e s'. (k, v) \<in> set kvs \<Longrightarrow> field_of tags k = Some tag
             \<Longrightarrow> field tag v s = Ok (e, s') \<Longrightarrow> g s' = g s"
    and "decode_entries tags field kvs (sv, s) = Ok (sv', s')"
  shows "g s' = g s"
  using assms
proof (induction kvs arbitrary: sv s)
  case Nil
  then show ?case by simp
next
  case (Cons kv kvs)
  obtain k v where kv: "kv = (k, v)" by (cases kv)
  have ih: "g s' = g s1" if d: "decode_entries tags field kvs (sv1, s1) = Ok (sv', s')" for sv1 s1
  proof (rule Cons.IH [OF _ d])
    fix k v tag s e s'
    assume "(k, v) \<in> set kvs" "field_of tags k = Some tag" "field tag v s = Ok (e, s')"
    then show "g s' = g s" using Cons.prems(1) [of k v tag s e s'] by simp
  qed
  show ?case
  proof (cases "field_of tags k")
    case None
    with Cons.prems(2) ih show ?thesis by (simp add: kv)
  next
    case (Some tag)
    with Cons.prems(2) obtain e s1 where f: "field tag v s = Ok (e, s1)"
      and r: "decode_entries tags field kvs (first_error sv e, s1) = Ok (sv', s')"
      by (auto simp: kv split: result.splits)
    from Cons.prems(1) [of k v tag s e s1] Some f have "g s1 = g s" by (simp add: kv)
    with ih [OF r] show ?thesis by simp
  qed
qed

text \<open>The tags of a struct differ after folding, so a key addresses at most one field.\<close>

lemma field_of_Some:
  "field_of tags k = Some tag \<Longrightarrow> tag \<in> set tags \<and> foldName tag = foldName k"
  unfolding field_of_def by (auto simp: find_Some_iff)

lemma field_of_tag:
  assumes "distinct (map foldName tags)" and "tag \<in> set tags" and "foldName k = foldName tag"
  shows "field_of tags k = Some tag"
proof -
  from assms(2,3) have "\<exists>x\<in>set tags. foldName x = foldName k" by auto
  then obtain t where t: "field_of tags k = Some t"
    unfolding field_of_def by (cases "find (\<lambda>tag. foldName tag = foldName k) tags") (auto simp: find_None_iff)
  from field_of_Some [OF t] have "t \<in> set tags" "foldName t = foldName tag" using assms(3) by simp_all
  with assms(1,2) have "t = tag" by (metis distinct_map inj_onD)
  with t show ?thesis by simp
qed

text \<open>A string field holds the last string the document gives it.\<close>

lemma decode_entries_string:
  assumes others: "\<And>tag' v s e s'. tag' \<noteq> tag \<Longrightarrow> field tag' v s = Ok (e, s') \<Longrightarrow> g s' = g s"
    and own: "\<And>v s. field tag v s = into (store_string v (g s)) (put s)"
    and get_put: "\<And>s x. g (put s x) = x"
    and tags: "distinct (map foldName tags)" "tag \<in> set tags"
    and dec: "decode_entries tags field kvs (sv, s) = Ok (None, s')"
  shows "g s' = last_string tag kvs (g s)"
  using dec
proof (induction kvs arbitrary: sv s)
  case Nil
  then show ?case by simp
next
  case (Cons kv kvs)
  obtain k v where kv: "kv = (k, v)" by (cases kv)
  show ?case
  proof (cases "field_of tags k")
    case None
    have "foldName k \<noteq> foldName tag"
      using field_of_tag [OF tags, of k] None by auto
    with Cons.prems None Cons.IH show ?thesis by (simp add: kv)
  next
    case (Some tag')
    with Cons.prems obtain e s1 where f: "field tag' v s = Ok (e, s1)"
      and r: "decode_entries tags field kvs (first_error sv e, s1) = Ok (None, s')"
      by (auto simp: kv split: result.splits)
    show ?thesis
    proof (cases "tag' = tag")
      case False
      from field_of_Some [OF Some] have "tag' \<in> set tags" "foldName tag' = foldName k" by simp_all
      with False tags have ne: "foldName k \<noteq> foldName tag"
        by (metis distinct_map inj_onD)
      from others [OF False f] have "g s1 = g s" .
      with Cons.IH [OF r] ne show ?thesis by (simp add: kv)
    next
      case True
      from field_of_Some [OF Some] True have eq: "foldName k = foldName tag" by simp
      have e: "e = None"
      proof (cases e)
        case None then show ?thesis .
      next
        case (Some err)
        then have "first_error sv e \<noteq> None" by (cases sv) simp_all
        then obtain e' where "first_error sv e = Some e'" by blast
        with r decode_entries_saved show ?thesis by metis
      qed
      from f True own [of v s] e have "g s1 = (case v of JString x \<Rightarrow> x | _ \<Rightarrow> g s)"
        by (cases v) (auto simp: into_def store_string_def get_put)
      with Cons.IH [OF r] eq show ?thesis by (simp add: kv)
    qed
  qed
qed

section \<open>Properties of the decoders of the entities\<close>

lemma into_Ok: "\<exists>e s'. into r put = Ok (e, s')"
  by (cases r) (simp add: into_def)

lemma into_OkD: "into r put = Ok (e, s') \<Longrightarrow> \<exists>x. r = (e, x) \<and> s' = put x"
  by (cases r) (simp add: into_def)

lemma into_resultD: "into_result r put = Ok (e, s') \<Longrightarrow> \<exists>x. r = Ok (e, x) \<and> s' = put x"
  by (cases r) (auto simp: into_result_def)

lemma into_result_Panic: "into_result r put = Panic \<longleftrightarrow> r = Panic"
  by (cases r) (auto simp: into_result_def)

lemma into_result_Failed: "into_result r put = Failed err \<longleftrightarrow> r = Failed err"
  by (cases r) (auto simp: into_result_def)

lemma into_no_Panic: "into r put \<noteq> Panic"
  using into_Ok [of r put] by auto

lemma decode_entries_Ok:
  assumes "\<And>tag v s. \<exists>e s'. field tag v s = Ok (e, s')"
  shows "\<exists>sv' s'. decode_entries tags field kvs (sv, s) = Ok (sv', s')"
proof (induction kvs arbitrary: sv s)
  case Nil
  then show ?case by simp
next
  case (Cons kv kvs)
  obtain k v where kv: "kv = (k, v)" by (cases kv)
  show ?case
  proof (cases "field_of tags k")
    case None
    with Cons.IH show ?thesis by (simp add: kv)
  next
    case (Some tag)
    from assms [of tag v s] obtain e s1 where "field tag v s = Ok (e, s1)" by blast
    with Some Cons.IH [of "first_error sv e" s1] show ?thesis by (simp add: kv)
  qed
qed

lemma decode_entries_no_Panic:
  assumes "\<And>tag v s. field tag v s \<noteq> Panic"
  shows "decode_entries tags field kvs st \<noteq> Panic"
proof (induction kvs arbitrary: st)
  case Nil
  then show ?case by simp
next
  case (Cons kv kvs)
  obtain k v where kv: "kv = (k, v)" by (cases kv)
  obtain sv s where st: "st = (sv, s)" by (cases st)
  show ?case
    using assms Cons.IH by (simp add: kv st split: option.splits result.splits)
qed

lemma json_Unmarshal_no_Panic:
  assumes "\<And>tag v s. field tag v s \<noteq> Panic"
  shows "json_Unmarshal tags field ty v s \<noteq> Panic"
  using decode_entries_no_Panic [OF assms, of tags]
  by (auto simp: json_Unmarshal_def decode_struct_def split: json.splits result.splits option.splits)

lemma json_Unmarshal_entries:
  assumes "json_Unmarshal tags field ty (JObject kvs) a = Ok aux"
  shows "decode_entries tags field kvs (None, a) = Ok (None, aux)"
  using assms
  by (auto simp: json_Unmarshal_def decode_struct_def split: result.splits option.splits)

text \<open>What \<open>json.Unmarshal\<close> returns when the entries leave a type error.\<close>

lemma json_Unmarshal_saved:
  assumes "decode_entries tags field kvs (None, a) = Ok (Some err, aux)"
  shows "json_Unmarshal tags field ty (JObject kvs) a = Failed err"
  using assms by (simp add: json_Unmarshal_def decode_struct_def)

subsection \<open>Torrent\<close>

lemma distinct_Torrent_tags: "distinct (map foldName Torrent_tags)"
  by code_simp

lemma tor_field_Ok: "\<exists>e t'. tor_field tag v t = Ok (e, t')"
  by (simp add: tor_field_def into_Ok)

lemma Torrent_field_Ok: "\<exists>e a'. Torrent_field tag v a = Ok (e, a')"
proof (cases "tag = ''url''")
  case True
  then show ?thesis by (simp add: Torrent_field_def into_Ok)
next
  case False
  from tor_field_Ok [of tag v "tor a"] obtain e t' where "tor_field tag v (tor a) = Ok (e, t')" by blast
  with False show ?thesis by (simp add: Torrent_field_def into_result_def)
qed

lemma Torrent_field_no_Panic: "Torrent_field tag v a \<noteq> Panic"
  using Torrent_field_Ok [of tag v a] by auto

lemma Torrent_decode_no_Panic: "json_Unmarshal Torrent_tags Torrent_field ty data a \<noteq> Panic"
  by (rule json_Unmarshal_no_Panic) (rule Torrent_field_no_Panic)

lemma Torrent_no_Panic: "Torrent_UnmarshalJSON lib data t \<noteq> Panic"
  using Torrent_decode_no_Panic
  by (auto simp: Torrent_UnmarshalJSON_def Let_def split: result.splits sum.splits)

lemma tor_field_movieName: "tor_field tag v t = Ok (e, t') \<Longrightarrow> movieName t' = movieName t"
  by (auto simp: tor_field_def dest!: into_OkD split: if_splits)

lemma Torrent_field_movieName:
  "Torrent_field tag v a = Ok (e, a') \<Longrightarrow> movieName (tor a') = movieName (tor a)"
  by (auto simp: Torrent_field_def dest!: into_OkD into_resultD tor_field_movieName split: if_splits)

lemma Torrent_field_raw:
  "tag \<noteq> ''url'' \<Longrightarrow> Torrent_field tag v a = Ok (e, a') \<Longrightarrow> T_URLRaw a' = T_URLRaw a"
  by (auto simp: Torrent_field_def dest!: into_resultD)

lemma tor_field_date:
  "tag \<noteq> ''date_uploaded_unix'' \<Longrightarrow> tor_field tag v t = Ok (e, t')
     \<Longrightarrow> T_DateUploadedUnix t' = T_DateUploadedUnix t"
  by (auto simp: tor_field_def dest!: into_OkD split: if_splits)

lemma Torrent_field_date:
  "tag \<noteq> ''date_uploaded_unix'' \<Longrightarrow> Torrent_field tag v a = Ok (e, a')
     \<Longrightarrow> T_DateUploadedUnix (tor a') = T_DateUploadedUnix (tor a)"
  by (auto simp: Torrent_field_def dest!: into_OkD into_resultD tor_field_date split: if_splits)

subsection \<open>Cast\<close>

lemma distinct_Cast_tags: "distinct (map foldName Cast_tags)"
  by code_simp

lemma cst_field_Ok: "\<exists>e c'. cst_field tag v c = Ok (e, c')"
  by (simp add: cst_field_def into_Ok)

lemma Cast_field_Ok: "\<exists>e a'. Cast_field tag v a = Ok (e, a')"
proof (cases "tag = ''url_small_image''")
  case True
  then show ?thesis by (simp add: Cast_field_def into_Ok)
next
  case False
  from cst_field_Ok [of tag v "cst a"] obtain e c' where "cst_field tag v (cst a) = Ok (e, c')" by blast
  with False show ?thesis by (simp add: Cast_field_def into_result_def)
qed

lemma Cast_field_no_Panic: "Cast_field tag v a \<noteq> Panic"
  using Cast_field_Ok [of tag v a] by auto

lemma Cast_decode_no_Panic: "json_Unmarshal Cast_tags Cast_field ty data a \<noteq> Panic"
  by (rule json_Unmarshal_no_Panic) (rule Cast_field_no_Panic)

lemma Cast_no_Panic: "Cast_UnmarshalJSON lib data c \<noteq> Panic"
  using Cast_decode_no_Panic
  by (auto simp: Cast_UnmarshalJSON_def Let_def split: result.splits sum.splits)

lemma Cast_field_raw:
  "tag \<noteq> ''url_small_image'' \<Longrightarrow> Cast_field tag v a = Ok (e, a') \<Longrightarrow> SmallImageURL a' = SmallImageURL a"
  by (auto simp: Cast_field_def dest!: into_resultD)

subsection \<open>Movie\<close>

lemma distinct_Movie_tags: "distinct (map foldName Movie_tags)"
  by code_simp

lemma store_ptr_no_Panic:
  assumes "\<And>v a. unmarshal v a \<noteq> Panic"
  shows "store_ptr unmarshal zero v cur \<noteq> Panic"
  using assms by (auto simp: store_ptr_def split: json.splits result.splits)

lemma store_ptr_elems_no_Panic:
  assumes "\<And>v a. unmarshal v a \<noteq> Panic"
  shows "store_ptr_elems unmarshal zero xs backing \<noteq> Panic"
proof (induction xs arbitrary: backing)
  case Nil
  then show ?case by simp
next
  case (Cons x xs)
  from store_ptr_no_Panic [of unmarshal zero x, OF assms] Cons.IH show ?case
    by (auto split: result.splits)
qed

lemma store_ptrs_no_Panic:
  assumes "\<And>v a. unmarshal v a \<noteq> Panic"
  shows "store_ptrs unmarshal zero ty v cur \<noteq> Panic"
  using store_ptr_elems_no_Panic [of unmarshal zero, OF assms]
  by (auto simp: store_ptrs_def split: json.splits result.splits)

lemma mov_field_no_Panic: "mov_field lib tag v m \<noteq> Panic"
  by (simp add: mov_field_def into_no_Panic into_result_Panic
      store_ptrs_no_Panic [of "Torrent_UnmarshalJSON lib", OF Torrent_no_Panic]
      store_ptrs_no_Panic [of "Cast_UnmarshalJSON lib", OF Cast_no_Panic])

lemma Movie_field_no_Panic: "Movie_field lib tag v a \<noteq> Panic"
  by (simp add: Movie_field_def into_no_Panic into_result_Panic mov_field_no_Panic)

lemma Movie_decode_no_Panic: "json_Unmarshal Movie_tags (Movie_field lib) ty data a \<noteq> Panic"
  by (rule json_Unmarshal_no_Panic) (rule Movie_field_no_Panic)

lemma mov_field_date:
  "tag \<noteq> ''date_uploaded_unix'' \<Longrightarrow> mov_field lib tag v m = Ok (e, m')
     \<Longrightarrow> DateUploadedUnix m' = DateUploadedUnix m"
  by (auto simp: mov_field_def dest!: into_OkD into_resultD split: if_splits)

lemma Movie_field_date:
  "tag \<noteq> ''date_uploaded_unix'' \<Longrightarrow> Movie_field lib tag v a = Ok (e, a')
     \<Longrightarrow> DateUploadedUnix (mov a') = DateUploadedUnix (mov a)"
  by (auto simp: Movie_field_def dest!: into_OkD into_resultD mov_field_date split: if_splits)

section \<open>Properties of the decoding of timestamps\<close>

lemma Time_Unix_time_Unix: "Time_Unix (time_Unix sec 0) = sec"
  by (simp add: Time_Unix_def Time_sec_def time_Unix_def internalToUnix_def word_sless_alt word_sle_eq)

lemma ParseInt_None: "ParseInt n = None \<longleftrightarrow> \<not> int64_literal n"
  by (auto simp: ParseInt_def is_integer_literal_def int64_literal_def literal_value_def Let_def)

lemma ParseInt_Some:
  assumes "ParseInt n = Some w"
  shows "int64_literal n \<and> sint w = literal_value n"
proof -
  from assms have i: "int64_literal n" using ParseInt_None [of n] by auto
  from assms have w: "w = word_of_int (literal_value n)"
    by (auto simp: ParseInt_def literal_value_def Let_def split: if_splits)
  from i have lo: "- (2 ^ 63) \<le> literal_value n" and hi: "literal_value n < 2 ^ 63"
    by (simp_all add: int64_literal_def)
  have "sint (word_of_int (literal_value n) :: 64 word) = literal_value n"
    unfolding sint_sbintrunc' by (rule signed_take_bit_int_eq_self) (use lo hi in simp_all)
  with i w show ?thesis by simp
qed

lemma ParseInt_literal:
  "int64_literal n \<Longrightarrow> ParseInt n = Some (word_of_int (literal_value n))"
  by (simp add: ParseInt_def is_integer_literal_def int64_literal_def literal_value_def Let_def)

lemma field_of_date_Movie:
  "foldName k = foldName ''date_uploaded_unix'' \<Longrightarrow> field_of Movie_tags k = Some ''date_uploaded_unix''"
  by (rule field_of_tag [OF distinct_Movie_tags]) (simp_all add: Movie_tags_def)

lemma field_of_date_Torrent:
  "foldName k = foldName ''date_uploaded_unix'' \<Longrightarrow> field_of Torrent_tags k = Some ''date_uploaded_unix''"
  by (rule field_of_tag [OF distinct_Torrent_tags]) (simp_all add: Torrent_tags_def)

lemma Movie_field_date_error:
  "ParseInt n = None \<Longrightarrow>
   \<exists>err a'. Movie_field lib ''date_uploaded_unix'' (JNumber n) a = Ok (Some err, a')"
  by (simp add: Movie_field_def mov_field_def into_def into_result_def store_int64_def)

lemma Torrent_field_date_error:
  "ParseInt n = None \<Longrightarrow>
   \<exists>err a'. Torrent_field ''date_uploaded_unix'' (JNumber n) a = Ok (Some err, a')"
  by (simp add: Torrent_field_def tor_field_def into_def into_result_def store_int64_def)

lemma Movie_date_rejected:
  assumes "(k, JNumber n) \<in> set kvs" and "foldName k = foldName ''date_uploaded_unix''"
    and "ParseInt n = None"
  shows "\<exists>err. Movie_UnmarshalJSON lib (JObject kvs) m = Failed err"
proof -
  let ?a = "\<lparr>URLRaw = '''', BGImgURL = '''', BGImgURLOrig = '''', SCoverImg = '''', MCoverImg = '''',
              LCoverImg = '''', mov = m\<rparr>"
  have "decode_entries Movie_tags (Movie_field lib) kvs (None, ?a) \<noteq> Ok (None, a')" for a'
    by (rule decode_entries_type_error [OF assms(1) field_of_date_Movie [OF assms(2)]])
       (rule Movie_field_date_error [OF assms(3)])
  then have "\<forall>a'. json_Unmarshal Movie_tags (Movie_field lib) ''Movie'' (JObject kvs) ?a \<noteq> Ok a'"
    by (auto simp: json_Unmarshal_def decode_struct_def split: result.splits option.splits)
  with Movie_decode_no_Panic [of lib "''Movie''" "JObject kvs" ?a]
  obtain err where "json_Unmarshal Movie_tags (Movie_field lib) ''Movie'' (JObject kvs) ?a = Failed err"
    by (cases "json_Unmarshal Movie_tags (Movie_field lib) ''Movie'' (JObject kvs) ?a") auto
  then show ?thesis by (simp add: Movie_UnmarshalJSON_def)
qed

lemma Torrent_date_rejected:
  assumes "(k, JNumber n) \<in> set kvs" and "foldName k = foldName ''date_uploaded_unix''"
    and "ParseInt n = None"
  shows "\<exists>err. Torrent_UnmarshalJSON lib (JObject kvs) t = Failed err"
proof -
  let ?a = "\<lparr>T_URLRaw = '''', tor = t\<rparr>"
  have "decode_entries Torrent_tags Torrent_field kvs (None, ?a) \<noteq> Ok (None, a')" for a'
    by (rule decode_entries_type_error [OF assms(1) field_of_date_Torrent [OF assms(2)]])
       (rule Torrent_field_date_error [OF assms(3)])
  then have "\<forall>a'. json_Unmarshal Torrent_tags Torrent_field ''Torrent'' (JObject kvs) ?a \<noteq> Ok a'"
    by (auto simp: json_Unmarshal_def decode_struct_def split: result.splits option.splits)
  with Torrent_decode_no_Panic [of "''Torrent''" "JObject kvs" ?a]
  obtain err where "json_Unmarshal Torrent_tags Torrent_field ''Torrent'' (JObject kvs) ?a = Failed err"
    by (cases "json_Unmarshal Torrent_tags Torrent_field ''Torrent'' (JObject kvs) ?a") auto
  then show ?thesis by (simp add: Torrent_UnmarshalJSON_def)
qed

text \<open>What a successful decode leaves in the two time fields.\<close>

lemma parse_URLs_preserves:
  assumes "\<And>dest str u m. (dest, str) \<in> set us \<Longrightarrow> g (dest u m) = g m"
    and "parse_URLs lib us m = Inr m'"
  shows "g m' = g m"
  using assms
proof (induction us arbitrary: m)
  case Nil
  then show ?case by simp
next
  case (Cons a us)
  obtain dest str where a: "a = (dest, str)" by (cases a)
  from Cons.prems(2) obtain u where u: "parseURL lib str = Inr u"
    and r: "parse_URLs lib us (dest u m) = Inr m'"
    by (auto simp: a split: sum.splits)
  have "g m' = g (dest u m)"
    by (rule Cons.IH [OF _ r]) (use Cons.prems(1) in auto)
  with Cons.prems(1) [of dest str u m] show ?case by (simp add: a)
qed

lemma set_movieName_Ok:
  "set_movieName title ts = Ok ts' \<Longrightarrow>
     list_all2 (\<lambda>t t'. \<exists>x. t = Some x \<and> t' = Some (x\<lparr>movieName := title\<rparr>)) ts ts'"
proof (induction title ts arbitrary: ts' rule: set_movieName.induct)
  case (1 title)
  then show ?case by simp
next
  case (2 title ts)
  then show ?case by simp
next
  case (3 title t ts)
  then show ?case by (auto split: result.splits)
qed

text \<open>The steps of \<open>Movie.UnmarshalJSON\<close> after the field-by-field decoding, for a proof.\<close>

lemma Movie_UnmarshalJSON_Ok:
  assumes "Movie_UnmarshalJSON lib data m = Ok m'"
  obtains aux m1 ts where
    "json_Unmarshal Movie_tags (Movie_field lib) ''Movie'' data
       \<lparr>URLRaw = '''', BGImgURL = '''', BGImgURLOrig = '''', SCoverImg = '''', MCoverImg = '''',
        LCoverImg = '''', mov = m\<rparr> = Ok aux"
    "parse_URLs lib
       [(\<lambda>u m. m\<lparr>M_URL := u\<rparr>, URLRaw aux),
        (\<lambda>u m. m\<lparr>BackgroundImage := u\<rparr>, BGImgURL aux),
        (\<lambda>u m. m\<lparr>BackgroundImageOriginal := u\<rparr>, BGImgURLOrig aux),
        (\<lambda>u m. m\<lparr>SmallCoverImage := u\<rparr>, SCoverImg aux),
        (\<lambda>u m. m\<lparr>MediumCoverImage := u\<rparr>, MCoverImg aux),
        (\<lambda>u m. m\<lparr>LargeCoverImage := u\<rparr>, LCoverImg aux)] (mov aux) = Inr m1"
    "set_movieName (Title m1) (elems (Torrents m1)) = Ok ts"
    "m' = m1\<lparr>DateUploaded := parseTime (DateUploadedUnix m1),
             Torrents := Slice ts (spare (Torrents m1))\<rparr>"
  using assms
  by (auto simp: Movie_UnmarshalJSON_def Let_def split: result.splits sum.splits)

lemma Movie_times:
  assumes "Movie_UnmarshalJSON lib data m = Ok m'"
  shows "DateUploaded m' = time_Unix (DateUploadedUnix m') 0 \<and> Time_Unix (DateUploaded m') = DateUploadedUnix m'"
proof -
  from assms obtain aux m1 ts where
    "m' = m1\<lparr>DateUploaded := parseTime (DateUploadedUnix m1), Torrents := Slice ts (spare (Torrents m1))\<rparr>"
    by (rule Movie_UnmarshalJSON_Ok)
  then show ?thesis by (simp add: parseTime_def Time_Unix_time_Unix)
qed

lemma Torrent_times:
  assumes "Torrent_UnmarshalJSON lib data t = Ok t'"
  shows "T_DateUploaded t' = time_Unix (T_DateUploadedUnix t') 0
       \<and> Time_Unix (T_DateUploaded t') = T_DateUploadedUnix t'"
  using assms
  by (auto simp: Torrent_UnmarshalJSON_def Let_def parseTime_def Time_Unix_time_Unix
      split: result.splits sum.splits)

lemma url_Parse_empty: "url_Parse lib '''' = Inr empty_URL"
  by code_simp

lemma url_Parse_colon:
  "url_Parse lib '':'' = Inl (URLError ''parse'' '':'' (ErrorString ''missing protocol scheme''))"
  by code_simp

lemma parseURL_empty: "parseURL lib '''' = Inr (Some empty_URL)"
  by (simp add: parseURL_def url_Parse_empty)

lemma Movie_date_accepted:
  assumes dec: "Movie_UnmarshalJSON lib (JObject (kvs1 @ (k, JNumber n) # kvs2)) m = Ok m'"
    and key: "foldName k = foldName ''date_uploaded_unix''"
    and last: "\<forall>(k', v') \<in> set kvs2. foldName k' \<noteq> foldName ''date_uploaded_unix''"
  shows "ParseInt n = Some (DateUploadedUnix m')"
proof -
  let ?a = "\<lparr>URLRaw = '''', BGImgURL = '''', BGImgURLOrig = '''', SCoverImg = '''', MCoverImg = '''',
              LCoverImg = '''', mov = m\<rparr>"
  from dec obtain aux m1 ts where
    un: "json_Unmarshal Movie_tags (Movie_field lib) ''Movie'' (JObject (kvs1 @ (k, JNumber n) # kvs2)) ?a
           = Ok aux"
    and urls: "parse_URLs lib
       [(\<lambda>u m. m\<lparr>M_URL := u\<rparr>, URLRaw aux),
        (\<lambda>u m. m\<lparr>BackgroundImage := u\<rparr>, BGImgURL aux),
        (\<lambda>u m. m\<lparr>BackgroundImageOriginal := u\<rparr>, BGImgURLOrig aux),
        (\<lambda>u m. m\<lparr>SmallCoverImage := u\<rparr>, SCoverImg aux),
        (\<lambda>u m. m\<lparr>MediumCoverImage := u\<rparr>, MCoverImg aux),
        (\<lambda>u m. m\<lparr>LargeCoverImage := u\<rparr>, LCoverImg aux)] (mov aux) = Inr m1"
    and m': "m' = m1\<lparr>DateUploaded := parseTime (DateUploadedUnix m1),
                   Torrents := Slice ts (spare (Torrents m1))\<rparr>"
    by (rule Movie_UnmarshalJSON_Ok)
  from json_Unmarshal_entries [OF un] obtain sv1 a1 where
    d2: "decode_entries Movie_tags (Movie_field lib) ((k, JNumber n) # kvs2) (sv1, a1) = Ok (None, aux)"
    by (auto simp: decode_entries_append split: result.splits)
  from d2 field_of_date_Movie [OF key] obtain e a2 where
    f: "Movie_field lib ''date_uploaded_unix'' (JNumber n) a1 = Ok (e, a2)"
    and d3: "decode_entries Movie_tags (Movie_field lib) kvs2 (first_error sv1 e, a2) = Ok (None, aux)"
    by (auto split: result.splits)
  have "first_error sv1 e = None"
    using d3 by (cases "first_error sv1 e") (simp_all add: decode_entries_saved)
  then have e: "e = None" by (cases sv1) simp_all
  from f e obtain w where w: "ParseInt n = Some w" and a2: "DateUploadedUnix (mov a2) = w"
    by (auto simp: Movie_field_def mov_field_def into_def into_result_def store_int64_def
        split: option.splits)
  have "DateUploadedUnix (mov aux) = DateUploadedUnix (mov a2)"
  proof (rule decode_entries_preserves [where g = "\<lambda>a. DateUploadedUnix (mov a)", OF _ d3])
    fix k' v' tag s e' s'
    assume in_kvs: "(k', v') \<in> set kvs2" and tag: "field_of Movie_tags k' = Some tag"
      and fld: "Movie_field lib tag v' s = Ok (e', s')"
    from last in_kvs have "foldName k' \<noteq> foldName ''date_uploaded_unix''" by auto
    with field_of_Some [OF tag] have "tag \<noteq> ''date_uploaded_unix''" by auto
    from Movie_field_date [OF this fld] show "DateUploadedUnix (mov s') = DateUploadedUnix (mov s)" .
  qed
  moreover have "DateUploadedUnix m1 = DateUploadedUnix (mov aux)"
    by (rule parse_URLs_preserves [OF _ urls]) auto
  ultimately show ?thesis using w a2 m' by simp
qed

lemma Torrent_date_accepted:
  assumes dec: "Torrent_UnmarshalJSON lib (JObject (kvs1 @ (k, JNumber n) # kvs2)) t = Ok t'"
    and key: "foldName k = foldName ''date_uploaded_unix''"
    and last: "\<forall>(k', v') \<in> set kvs2. foldName k' \<noteq> foldName ''date_uploaded_unix''"
  shows "ParseInt n = Some (T_DateUploadedUnix t')"
proof -
  let ?a = "\<lparr>T_URLRaw = '''', tor = t\<rparr>"
  from dec obtain aux u where
    un: "json_Unmarshal Torrent_tags Torrent_field ''Torrent'' (JObject (kvs1 @ (k, JNumber n) # kvs2)) ?a = Ok aux"
    and t': "t' = (tor aux)\<lparr>T_URL := u, T_DateUploaded := parseTime (T_DateUploadedUnix (tor aux))\<rparr>"
    by (auto simp: Torrent_UnmarshalJSON_def Let_def split: result.splits sum.splits)
  from json_Unmarshal_entries [OF un] obtain sv1 a1 where
    d2: "decode_entries Torrent_tags Torrent_field ((k, JNumber n) # kvs2) (sv1, a1) = Ok (None, aux)"
    by (auto simp: decode_entries_append split: result.splits)
  from d2 field_of_date_Torrent [OF key] obtain e a2 where
    f: "Torrent_field ''date_uploaded_unix'' (JNumber n) a1 = Ok (e, a2)"
    and d3: "decode_entries Torrent_tags Torrent_field kvs2 (first_error sv1 e, a2) = Ok (None, aux)"
    by (auto split: result.splits)
  have "first_error sv1 e = None"
    using d3 by (cases "first_error sv1 e") (simp_all add: decode_entries_saved)
  then have e: "e = None" by (cases sv1) simp_all
  from f e obtain w where w: "ParseInt n = Some w" and a2: "T_DateUploadedUnix (tor a2) = w"
    by (auto simp: Torrent_field_def tor_field_def into_def into_result_def store_int64_def
        split: option.splits)
  have "T_DateUploadedUnix (tor aux) = T_DateUploadedUnix (tor a2)"
  proof (rule decode_entries_preserves [where g = "\<lambda>a. T_DateUploadedUnix (tor a)", OF _ d3])
    fix k' v' tag s e' s'
    assume in_kvs: "(k', v') \<in> set kvs2" and tag: "field_of Torrent_tags k' = Some tag"
      and fld: "Torrent_field tag v' s = Ok (e', s')"
    from last in_kvs have "foldName k' \<noteq> foldName ''date_uploaded_unix''" by auto
    with field_of_Some [OF tag] have ne: "tag \<noteq> ''date_uploaded_unix''" by auto
    from Torrent_field_date [OF ne fld]
    show "T_DateUploadedUnix (tor s') = T_DateUploadedUnix (tor s)" .
  qed
  with w a2 t' show ?thesis by simp
qed

lemma field_of_date_tag: "field_of Movie_tags ''date_uploaded_unix'' = Some ''date_uploaded_unix''"
  by (rule field_of_date_Movie) simp

lemma field_of_date_tag_Torrent:
  "field_of Torrent_tags ''date_uploaded_unix'' = Some ''date_uploaded_unix''"
  by (rule field_of_date_Torrent) simp

lemma Movie_date_only:
  assumes "ParseInt n = Some w"
  shows "Movie_UnmarshalJSON lib (JObject [(''date_uploaded_unix'', JNumber n)]) zero_Movie =
     Ok (zero_Movie\<lparr>M_URL := Some empty_URL, BackgroundImage := Some empty_URL,
           BackgroundImageOriginal := Some empty_URL, SmallCoverImage := Some empty_URL,
           MediumCoverImage := Some empty_URL, LargeCoverImage := Some empty_URL,
           DateUploaded := time_Unix w 0, DateUploadedUnix := w\<rparr>)"
proof -
  have f: "Movie_field lib ''date_uploaded_unix'' (JNumber n) a
             = Ok (None, a\<lparr>mov := (mov a)\<lparr>DateUploadedUnix := w\<rparr>\<rparr>)"
    for a
    using assms by (simp add: Movie_field_def mov_field_def into_def into_result_def store_int64_def)
  have t: "Torrents zero_Movie = Slice [] []" by (simp add: zero_Movie_def nil_slice_def)
  show ?thesis
    by (simp add: Movie_UnmarshalJSON_def json_Unmarshal_def decode_struct_def field_of_date_tag f
        parseURL_empty parseTime_def t Let_def)
qed

lemma Torrent_date_only:
  assumes "ParseInt n = Some w"
  shows "Torrent_UnmarshalJSON lib (JObject [(''date_uploaded_unix'', JNumber n)]) zero_Torrent =
     Ok (zero_Torrent\<lparr>T_URL := Some empty_URL, T_DateUploaded := time_Unix w 0,
           T_DateUploadedUnix := w\<rparr>)"
proof -
  have f: "Torrent_field ''date_uploaded_unix'' (JNumber n) a
             = Ok (None, a\<lparr>tor := (tor a)\<lparr>T_DateUploadedUnix := w\<rparr>\<rparr>)"
    for a
    using assms by (simp add: Torrent_field_def tor_field_def into_def into_result_def store_int64_def)
  show ?thesis
    by (simp add: Torrent_UnmarshalJSON_def json_Unmarshal_def decode_struct_def
        field_of_date_tag_Torrent f parseURL_empty parseTime_def Let_def)
qed

text \<open>
  A timestamp that is an integer, but is not written as an integer literal of the range of
  \<open>int64\<close>, does not decode: \<open>1e3\<close>, \<open>5.0\<close> and \<open>9223372036854775808\<close> (which is \<open>2^63\<close>)
  under \<open>date_uploaded_unix\<close> make \<open>UnmarshalJSON\<close> of a movie and of a torrent return the
  type error of the field.
\<close>

theorem integer_timestamps_rejected:
  "\<forall>lib.
     Movie_UnmarshalJSON lib
        (JObject [(''date_uploaded_unix'', JNumber (Number False 1 [] (Some 3)))]) zero_Movie
       = Failed (UnmarshalTypeError ''number'' ''int64'')
   \<and> Torrent_UnmarshalJSON lib
        (JObject [(''date_uploaded_unix'', JNumber (Number False 1 [] (Some 3)))]) zero_Torrent
       = Failed (UnmarshalTypeError ''number'' ''int64'')
   \<and> Movie_UnmarshalJSON lib
        (JObject [(''date_uploaded_unix'', JNumber (Number False 5 [0] None))]) zero_Movie
       = Failed (UnmarshalTypeError ''number'' ''int64'')
   \<and> Torrent_UnmarshalJSON lib
        (JObject [(''date_uploaded_unix'', JNumber (Number False 5 [0] None))]) zero_Torrent
       = Failed (UnmarshalTypeError ''number'' ''int64'')
   \<and> Movie_UnmarshalJSON lib
        (JObject [(''date_uploaded_unix'', JNumber (Number False 9223372036854775808 [] None))]) zero_Movie
       = Failed (UnmarshalTypeError ''number'' ''int64'')
   \<and> Torrent_UnmarshalJSON lib
        (JObject [(''date_uploaded_unix'', JNumber (Number False 9223372036854775808 [] None))])
        zero_Torrent
       = Failed (UnmarshalTypeError ''number'' ''int64'')"
proof -
  have m: "Movie_UnmarshalJSON lib (JObject [(''date_uploaded_unix'', JNumber n)]) zero_Movie
             = Failed (UnmarshalTypeError ''number'' ''int64'')" if "ParseInt n = None" for lib n
    using that
    by (simp add: Movie_UnmarshalJSON_def json_Unmarshal_def decode_struct_def field_of_date_tag
        Movie_field_def mov_field_def into_def into_result_def store_int64_def)
  have t: "Torrent_UnmarshalJSON lib (JObject [(''date_uploaded_unix'', JNumber n)]) zero_Torrent
             = Failed (UnmarshalTypeError ''number'' ''int64'')" if "ParseInt n = None" for lib n
    using that
    by (simp add: Torrent_UnmarshalJSON_def json_Unmarshal_def decode_struct_def
        field_of_date_tag_Torrent Torrent_field_def tor_field_def into_def into_result_def
        store_int64_def)
  have p: "ParseInt (Number False 1 [] (Some 3)) = None" "ParseInt (Number False 5 [0] None) = None"
    "ParseInt (Number False 9223372036854775808 [] None) = None"
    by (simp_all add: ParseInt_def is_integer_literal_def)
  show ?thesis by (intro allI conjI m t p)
qed

text \<open>
  C4, as the code has it. A document in which \<open>date_uploaded_unix\<close> holds a number that
  is not an integer literal of the range of \<open>int64\<close> (a fraction part as in \<open>232.1313\<close>, an
  exponent, or a value out of range) does not decode: \<open>UnmarshalJSON\<close> of a movie and of a
  torrent return an error, and no object with a truncated time. When a document decodes,
  the number that its last \<open>date_uploaded_unix\<close> gives is such a literal, the field
  \<open>DateUploadedUnix\<close> is its integer, and \<open>DateUploaded\<close> is \<open>time.Unix\<close> of it, whose seconds
  since the epoch are that integer again. Every such literal is decoded so, into a movie and
  into a torrent, from the document that holds only it.
\<close>

theorem timestamp_decoding:
  "((k1, JNumber n1) \<in> set kvs \<and> foldName k1 = foldName ''date_uploaded_unix'' \<and> \<not> int64_literal n1
      \<longrightarrow> (\<exists>err. Movie_UnmarshalJSON lib (JObject kvs) m = Failed err)
        \<and> (\<exists>err. Torrent_UnmarshalJSON lib (JObject kvs) t = Failed err))
   \<and> (Movie_UnmarshalJSON lib (JObject (xs @ (k2, JNumber n2) # ys)) m2 = Ok m2'
        \<and> foldName k2 = foldName ''date_uploaded_unix''
        \<and> (\<forall>(k', v') \<in> set ys. foldName k' \<noteq> foldName ''date_uploaded_unix'')
      \<longrightarrow> int64_literal n2
        \<and> sint (DateUploadedUnix m2') = literal_value n2
        \<and> DateUploaded m2' = time_Unix (DateUploadedUnix m2') 0
        \<and> Time_Unix (DateUploaded m2') = DateUploadedUnix m2')
   \<and> (Torrent_UnmarshalJSON lib (JObject (xs3 @ (k3, JNumber n3) # ys3)) t3 = Ok t3'
        \<and> foldName k3 = foldName ''date_uploaded_unix''
        \<and> (\<forall>(k', v') \<in> set ys3. foldName k' \<noteq> foldName ''date_uploaded_unix'')
      \<longrightarrow> int64_literal n3
        \<and> sint (T_DateUploadedUnix t3') = literal_value n3
        \<and> T_DateUploaded t3' = time_Unix (T_DateUploadedUnix t3') 0
        \<and> Time_Unix (T_DateUploaded t3') = T_DateUploadedUnix t3')
   \<and> (int64_literal n4
      \<longrightarrow> (\<exists>m'. Movie_UnmarshalJSON lib (JObject [(''date_uploaded_unix'', JNumber n4)]) zero_Movie = Ok m'
            \<and> sint (DateUploadedUnix m') = literal_value n4
            \<and> DateUploaded m' = time_Unix (DateUploadedUnix m') 0
            \<and> Time_Unix (DateUploaded m') = DateUploadedUnix m')
        \<and> (\<exists>t'. Torrent_UnmarshalJSON lib (JObject [(''date_uploaded_unix'', JNumber n4)]) zero_Torrent
                   = Ok t'
            \<and> sint (T_DateUploadedUnix t') = literal_value n4
            \<and> T_DateUploaded t' = time_Unix (T_DateUploadedUnix t') 0
            \<and> Time_Unix (T_DateUploaded t') = T_DateUploadedUnix t'))"
proof (intro conjI impI)
  assume a: "(k1, JNumber n1) \<in> set kvs \<and> foldName k1 = foldName ''date_uploaded_unix'' \<and> \<not> int64_literal n1"
  then have p: "ParseInt n1 = None" by (simp add: ParseInt_None)
  from a p show "\<exists>err. Movie_UnmarshalJSON lib (JObject kvs) m = Failed err"
    by (blast intro: Movie_date_rejected)
  from a p show "\<exists>err. Torrent_UnmarshalJSON lib (JObject kvs) t = Failed err"
    by (blast intro: Torrent_date_rejected)
next
  assume a: "Movie_UnmarshalJSON lib (JObject (xs @ (k2, JNumber n2) # ys)) m2 = Ok m2'
        \<and> foldName k2 = foldName ''date_uploaded_unix''
        \<and> (\<forall>(k', v') \<in> set ys. foldName k' \<noteq> foldName ''date_uploaded_unix'')"
  then have p: "ParseInt n2 = Some (DateUploadedUnix m2')"
    using Movie_date_accepted by blast
  from ParseInt_Some [OF p] show "int64_literal n2"
    and "sint (DateUploadedUnix m2') = literal_value n2"
    by simp_all
  from a Movie_times show "DateUploaded m2' = time_Unix (DateUploadedUnix m2') 0"
    and "Time_Unix (DateUploaded m2') = DateUploadedUnix m2'"
    by blast+
next
  assume a: "Torrent_UnmarshalJSON lib (JObject (xs3 @ (k3, JNumber n3) # ys3)) t3 = Ok t3'
        \<and> foldName k3 = foldName ''date_uploaded_unix''
        \<and> (\<forall>(k', v') \<in> set ys3. foldName k' \<noteq> foldName ''date_uploaded_unix'')"
  then have p: "ParseInt n3 = Some (T_DateUploadedUnix t3')"
    using Torrent_date_accepted by blast
  from ParseInt_Some [OF p] show "int64_literal n3"
    and "sint (T_DateUploadedUnix t3') = literal_value n3"
    by simp_all
  from a Torrent_times show "T_DateUploaded t3' = time_Unix (T_DateUploadedUnix t3') 0"
    and "Time_Unix (T_DateUploaded t3') = T_DateUploadedUnix t3'"
    by blast+
next
  assume a: "int64_literal n4"
  then have p: "ParseInt n4 = Some (word_of_int (literal_value n4))"
    by (rule ParseInt_literal)
  from ParseInt_Some [OF p] Movie_date_only [OF p, of lib]
  show "\<exists>m'. Movie_UnmarshalJSON lib (JObject [(''date_uploaded_unix'', JNumber n4)]) zero_Movie = Ok m'
            \<and> sint (DateUploadedUnix m') = literal_value n4
            \<and> DateUploaded m' = time_Unix (DateUploadedUnix m') 0
            \<and> Time_Unix (DateUploaded m') = DateUploadedUnix m'"
    by (simp add: Time_Unix_time_Unix)
  from ParseInt_Some [OF p] Torrent_date_only [OF p, of lib]
  show "\<exists>t'. Torrent_UnmarshalJSON lib (JObject [(''date_uploaded_unix'', JNumber n4)]) zero_Torrent
                   = Ok t'
            \<and> sint (T_DateUploadedUnix t') = literal_value n4
            \<and> T_DateUploaded t' = time_Unix (T_DateUploadedUnix t') 0
            \<and> Time_Unix (T_DateUploaded t') = T_DateUploadedUnix t'"
    by (simp add: Time_Unix_time_Unix)
qed

text \<open>The two timestamps of the repository's tests: \<open>232.1313\<close> and \<open>1446320797\<close>.\<close>

theorem timestamp_decoding_witness:
  "\<forall>lib.
     (\<exists>err. Movie_UnmarshalJSON lib
               (JObject [(''date_uploaded_unix'', JNumber (Number False 232 [1, 3, 1, 3] None))]) zero_Movie
             = Failed err)
   \<and> (\<exists>err. Torrent_UnmarshalJSON lib
               (JObject [(''date_uploaded_unix'', JNumber (Number False 232 [1, 3, 1, 3] None))])
               zero_Torrent
             = Failed err)
   \<and> (\<exists>m'. Movie_UnmarshalJSON lib
               (JObject [(''date_uploaded_unix'', JNumber (Number False 1446320797 [] None))]) zero_Movie
             = Ok m'
          \<and> sint (DateUploadedUnix m') = 1446320797
          \<and> DateUploaded m' = time_Unix (DateUploadedUnix m') 0
          \<and> Time_Unix (DateUploaded m') = DateUploadedUnix m')
   \<and> (\<exists>t'. Torrent_UnmarshalJSON lib
               (JObject [(''date_uploaded_unix'', JNumber (Number False 1446320797 [] None))]) zero_Torrent
             = Ok t'
          \<and> sint (T_DateUploadedUnix t') = 1446320797
          \<and> T_DateUploaded t' = time_Unix (T_DateUploadedUnix t') 0
          \<and> Time_Unix (T_DateUploaded t') = T_DateUploadedUnix t')"
proof (intro allI)
  fix lib
  let ?bad = "Number False 232 [1, 3, 1, 3] None" and ?good = "Number False 1446320797 [] None"
  have nb: "\<not> int64_literal ?bad" by (simp add: int64_literal_def)
  have g: "int64_literal ?good" "literal_value ?good = 1446320797"
    by (simp_all add: int64_literal_def literal_value_def)
  note T = timestamp_decoding [where lib = lib]
  have a: "(\<exists>err. Movie_UnmarshalJSON lib (JObject [(''date_uploaded_unix'', JNumber ?bad)]) zero_Movie
             = Failed err)
         \<and> (\<exists>err. Torrent_UnmarshalJSON lib (JObject [(''date_uploaded_unix'', JNumber ?bad)]) zero_Torrent
             = Failed err)"
    using T [THEN conjunct1, of "''date_uploaded_unix''" ?bad
        "[(''date_uploaded_unix'', JNumber ?bad)]" zero_Movie zero_Torrent] nb
    by simp
  have b: "(\<exists>m'. Movie_UnmarshalJSON lib (JObject [(''date_uploaded_unix'', JNumber ?good)]) zero_Movie = Ok m'
            \<and> sint (DateUploadedUnix m') = 1446320797
            \<and> DateUploaded m' = time_Unix (DateUploadedUnix m') 0
            \<and> Time_Unix (DateUploaded m') = DateUploadedUnix m')
        \<and> (\<exists>t'. Torrent_UnmarshalJSON lib (JObject [(''date_uploaded_unix'', JNumber ?good)]) zero_Torrent
                   = Ok t'
            \<and> sint (T_DateUploadedUnix t') = 1446320797
            \<and> T_DateUploaded t' = time_Unix (T_DateUploadedUnix t') 0
            \<and> Time_Unix (T_DateUploaded t') = T_DateUploadedUnix t')"
    using T [THEN conjunct2, THEN conjunct2, THEN conjunct2, of ?good] g
    by simp
  from a b show "(\<exists>err. Movie_UnmarshalJSON lib
               (JObject [(''date_uploaded_unix'', JNumber (Number False 232 [1, 3, 1, 3] None))]) zero_Movie
             = Failed err)
   \<and> (\<exists>err. Torrent_UnmarshalJSON lib
               (JObject [(''date_uploaded_unix'', JNumber (Number False 232 [1, 3, 1, 3] None))])
               zero_Torrent
             = Failed err)
   \<and> (\<exists>m'. Movie_UnmarshalJSON lib
               (JObject [(''date_uploaded_unix'', JNumber (Number False 1446320797 [] None))]) zero_Movie
             = Ok m'
          \<and> sint (DateUploadedUnix m') = 1446320797
          \<and> DateUploaded m' = time_Unix (DateUploadedUnix m') 0
          \<and> Time_Unix (DateUploaded m') = DateUploadedUnix m')
   \<and> (\<exists>t'. Torrent_UnmarshalJSON lib
               (JObject [(''date_uploaded_unix'', JNumber (Number False 1446320797 [] None))]) zero_Torrent
             = Ok t'
          \<and> sint (T_DateUploadedUnix t') = 1446320797
          \<and> T_DateUploaded t' = time_Unix (T_DateUploadedUnix t') 0
          \<and> Time_Unix (T_DateUploaded t') = T_DateUploadedUnix t')"
    by blast
qed

end
